theory Spec2Isabelle
  imports Complex_Main "HOL-Library.Word"
begin

section \<open>engine.py: the per-frame analytics engine\<close>

text \<open>
  Images are numpy arrays of 8-bit values: a list of rows. Two images come from OpenCV
  for every frame and are inputs of the model: the grayscale conversion of the frame
  (\<open>cv2.cvtColor\<close>) and the cleaned foreground mask (background subtraction, binarisation at
  200, close, open, dilate). Densities and clock readings are Python floats; they are
  modelled as real numbers, so rounding of the floating-point operations is not part of
  the model.
\<close>

type_synonym image = "8 word list list"

record observation =
  gray :: image
  fg_mask :: image

datatype alert_status = HIGH | CLEAR

text \<open>
  The payload built by \<open>maybe_send_alert\<close>. The site identity, the formatted timestamp and
  the two values rounded to three decimals for transport are left out.
\<close>

record alert_event =
  ev_estimated_people :: int
  ev_frame_id :: nat
  ev_status :: alert_status

text \<open>
  \<open>ThermoEye\<close>. The background subtractor is OpenCV's object; of its state the model keeps
  the learning rates of the \<open>apply\<close> calls made on it since it was created.
\<close>

record engine =
  density_threshold :: real
  heatmap_opacity :: real
  alert_cooldown :: real
  bg_subtractor :: "real list"
  density_history :: "real list"
  estimated_people :: int
  current_density :: real
  prev_gray :: "image option"
  last_alert_time :: real
  alert_active :: bool

datatype failure = Cv2_Error | Nan_Density | Value_Error | No_Engine

definition new_engine :: "real \<Rightarrow> real \<Rightarrow> real \<Rightarrow> engine" where
  "new_engine thr op cooldown =
     \<lparr> density_threshold = thr, heatmap_opacity = op, alert_cooldown = cooldown,
       bg_subtractor = [], density_history = [], estimated_people = 0,
       current_density = 0, prev_gray = None, last_alert_time = 0,
       alert_active = False \<rparr>"

definition reset :: "engine \<Rightarrow> engine" where
  "reset e = e\<lparr> bg_subtractor := [], prev_gray := None, density_history := [],
               alert_active := False \<rparr>"

subsection \<open>Camera pan detection\<close>

definition count_nonzero :: "image \<Rightarrow> nat" where
  "count_nonzero img = sum_list (map (\<lambda>row. length (filter (\<lambda>p. 0 < p) row)) img)"

definition shape_h :: "image \<Rightarrow> nat" where
  "shape_h img = length img"

definition shape_w :: "image \<Rightarrow> nat" where
  "shape_w img = (case img of [] \<Rightarrow> 0 | row # _ \<Rightarrow> length row)"

definition absdiff :: "image \<Rightarrow> image \<Rightarrow> image" where
  "absdiff a b = map2 (map2 (\<lambda>p q. if q \<le> p then p - q else q - p)) a b"

definition threshold_binary :: "8 word \<Rightarrow> 8 word \<Rightarrow> image \<Rightarrow> image" where
  "threshold_binary t maxval img = map (map (\<lambda>p. if t < p then maxval else 0)) img"

text \<open>
  \<open>cv2.absdiff\<close> raises on images of different shapes. The changed fraction is a quotient
  of two counts; on an image without pixels numpy yields NaN, which is not greater than 0.6,
  and HOL's \<open>0 / 0 = 0\<close> gives the same answer.
\<close>

definition detect_camera_pan :: "image \<Rightarrow> engine \<Rightarrow> failure + (engine \<times> bool)" where
  "detect_camera_pan g e =
     (case prev_gray e of
        None \<Rightarrow> Inr (e\<lparr>prev_gray := Some g\<rparr>, False)
      | Some pg \<Rightarrow>
          if map length pg \<noteq> map length g then Inl Cv2_Error
          else
            let thresh = threshold_binary 30 255 (absdiff pg g);
                change_percentage =
                  real (count_nonzero thresh) / real (shape_h thresh * shape_w thresh)
            in Inr (e\<lparr>prev_gray := Some g\<rparr>, 0.6 < change_percentage))"

subsection \<open>The alert state machine\<close>

definition payload :: "engine \<Rightarrow> nat \<Rightarrow> alert_status \<Rightarrow> alert_event" where
  "payload e frame_id st =
     \<lparr> ev_estimated_people = estimated_people e, ev_frame_id = frame_id, ev_status = st \<rparr>"

text \<open>
  \<open>maybe_send_alert\<close>; \<open>now\<close> is the reading of \<open>time.time()\<close>. The result holds the
  payloads built by the call, in order.
\<close>

definition maybe_send_alert :: "real \<Rightarrow> nat \<Rightarrow> engine \<Rightarrow> engine \<times> alert_event list" where
  "maybe_send_alert now frame_id e =
     (let over = (density_threshold e < current_density e);
          (e1, ev1) =
            (if over \<and> (\<not> alert_active e \<or> alert_cooldown e \<le> now - last_alert_time e)
             then (e\<lparr>last_alert_time := now, alert_active := True\<rparr>,
                   [payload e frame_id HIGH])
             else (e, []));
          (e2, ev2) =
            (if \<not> over \<and> alert_active e1 \<and> 2 \<le> now - last_alert_time e1
             then (e1\<lparr>last_alert_time := now, alert_active := False\<rparr>,
                   [payload e1 frame_id CLEAR])
             else (e1, []))
      in (e2, ev1 @ ev2))"

subsection \<open>Density grid, history and occupant estimate\<close>

definition grid_size :: nat where
  "grid_size = 25"

definition cell :: "image \<Rightarrow> nat \<Rightarrow> nat \<Rightarrow> image" where
  "cell img i j =
     map (\<lambda>row. take grid_size (drop (j * grid_size) row))
         (take grid_size (drop (i * grid_size) img))"

definition density_map :: "image \<Rightarrow> real list list" where
  "density_map img =
     (let gh = shape_h img div grid_size; gw = shape_w img div grid_size
      in map (\<lambda>i. map (\<lambda>j. real (count_nonzero (cell img i j)) / real (grid_size ^ 2))
                       [0..<gw])
             [0..<gh])"

text \<open>
  \<open>np.mean\<close> of the grid. A grid without cells (a frame lower or narrower than one cell)
  makes numpy return NaN, and the rendering then raises when it resizes the empty grid; the
  real-valued model stops at the mean with \<open>Nan_Density\<close>.
\<close>

definition grid_mean :: "real list list \<Rightarrow> failure + real" where
  "grid_mean dm =
     (if concat dm = [] then Inl Nan_Density
      else Inr (sum_list (concat dm) / real (length (concat dm))))"

definition overall_density :: "image \<Rightarrow> bool \<Rightarrow> failure + real" where
  "overall_density img extreme_pan =
     (case grid_mean (density_map img) of
        Inl err \<Rightarrow> Inl err
      | Inr d \<Rightarrow> Inr (if extreme_pan then d * 0.5 else d))"

text \<open>
  \<open>deque(maxlen=15).append\<close>: the value goes to the right end and, when the deque then
  holds more than its capacity, the leftmost one is dropped.
\<close>

definition maxlen :: nat where
  "maxlen = 15"

definition deque_append :: "real \<Rightarrow> real list \<Rightarrow> real list" where
  "deque_append x h = (let h' = h @ [x] in if maxlen < length h' then tl h' else h')"

definition mean :: "real list \<Rightarrow> real" where
  "mean xs = sum_list xs / real (length xs)"

text \<open>
  The occupant estimate. \<open>int(n / 3.5)\<close> and \<open>int(n * 0.5)\<close> are taken on positive integers
  far below \<open>2 ^ 53\<close>, where the floating-point quotient truncates to \<open>2 * n div 7\<close> and the
  product to \<open>n div 2\<close>.
\<close>

definition estimate_people :: "nat \<Rightarrow> bool \<Rightarrow> int" where
  "estimate_people total_fg extreme_pan =
     (let e1 = max 1 (int total_fg div 800);
          e2 = max 1 (2 * e1 div 7)
      in if extreme_pan then e2 div 2 else e2)"

text \<open>
  The length of the slice \<open>a[start:stop]\<close> of an axis of \<open>n\<close> elements: a negative bound
  counts from the end, and both bounds are cut to the axis.
\<close>

definition slice_len :: "nat \<Rightarrow> int \<Rightarrow> int \<Rightarrow> nat" where
  "slice_len n start stop =
     (let bound = (\<lambda>i. if i < 0 then max 0 (i + int n) else min i (int n))
      in nat (bound stop - bound start))"

text \<open>
  The rendering of the display image reads the state and does not change it, but it can
  raise: the legend, 30 rows of 160 pixels, is assigned to
  \<open>display[20:50, w - 180:w - 20]\<close>, and numpy refuses the assignment with a \<open>ValueError\<close>
  unless the slice has exactly that shape.
\<close>

definition legend_fits :: "nat \<Rightarrow> nat \<Rightarrow> bool" where
  "legend_fits h w =
     (let legend_x = int w - 180; legend_y = 20
      in slice_len h legend_y (legend_y + 30) = 30 \<and>
         slice_len w legend_x (legend_x + 160) = 160)"

text \<open>
  \<open>process_frame\<close>. Of the rendering, which comes before the call of \<open>maybe_send_alert\<close>,
  the model keeps the failure of the legend; the display image itself is left out.
\<close>

definition process_frame ::
  "real \<Rightarrow> nat \<Rightarrow> observation \<Rightarrow> engine \<Rightarrow> failure + (engine \<times> alert_event list)" where
  "process_frame now frame_id ob e =
     (case detect_camera_pan (gray ob) e of
        Inl err \<Rightarrow> Inl err
      | Inr (e1, extreme_pan) \<Rightarrow>
          let learning_rate = (if extreme_pan then 0.03 else 0.01);
              e2 = e1\<lparr>bg_subtractor := bg_subtractor e1 @ [learning_rate]\<rparr>
          in case overall_density (fg_mask ob) extreme_pan of
               Inl err \<Rightarrow> Inl err
             | Inr d \<Rightarrow>
                 let hist = deque_append d (density_history e2);
                     e3 = e2\<lparr>density_history := hist, current_density := mean hist\<rparr>;
                     total_fg = count_nonzero (fg_mask ob);
                     e4 = e3\<lparr>estimated_people := estimate_people total_fg extreme_pan\<rparr>
                 in if legend_fits (shape_h (fg_mask ob)) (shape_w (fg_mask ob))
                    then Inr (maybe_send_alert now frame_id e4)
                    else Inl Value_Error)"

text \<open>Successive calls of \<open>process_frame\<close>, with the state and the payloads after each.\<close>

fun run_frames ::
  "(real \<times> nat \<times> observation) list \<Rightarrow> engine \<Rightarrow> failure + (engine \<times> alert_event list) list" where
  "run_frames [] e = Inr []"
| "run_frames ((now, frame_id, ob) # rest) e =
     (case process_frame now frame_id ob e of
        Inl err \<Rightarrow> Inl err
      | Inr (e', evs) \<Rightarrow>
          (case run_frames rest e' of
             Inl err \<Rightarrow> Inl err
           | Inr tr \<Rightarrow> Inr ((e', evs) # tr)))"

section \<open>app.py: the ingestion loop and the parameter routes\<close>

text \<open>
  \<open>state["source"]\<close> is the integer 0 for the webcam and a string (a configured stream URL,
  a typed URL or the path of an uploaded file) otherwise.
\<close>

datatype source = Device int | Location string

text \<open>
  Of an OpenCV capture handle the model keeps where it was opened from, the position of the
  next frame and whether it has been released. What a read returns is decided by the
  outside world and given to the loop as an input.
\<close>

record capture =
  opened_from :: source
  pos_frames :: nat
  released :: bool

definition open_capture :: "source \<Rightarrow> capture" where
  "open_capture src = \<lparr> opened_from = src, pos_frames = 0, released = False \<rparr>"

definition release :: "capture \<Rightarrow> capture" where
  "release c = c\<lparr>released := True\<rparr>"

text \<open>An entry of \<open>alerts_history\<close>; the timestamp is left out and the density is not rounded.\<close>

record alert_entry =
  al_density :: real
  al_people :: int
  al_stream_id :: "string option"

record stats =
  peak_density :: real
  avg_density :: real
  total_alerts :: nat

text \<open>
  The \<open>state\<close> dictionary, together with the module-level list \<open>alerts_history\<close> and the
  local list \<open>density_samples\<close> of \<open>video_loop\<close>. The displayed frame, the lock and the MQTT
  sender are left out.
\<close>

record app_state =
  st_source :: "source option"
  st_cap :: "capture option"
  st_running :: bool
  st_frame_id :: nat
  st_engine :: "engine option"
  st_active_stream_id :: "string option"
  st_stats :: stats
  alerts_history :: "alert_entry list"
  density_samples :: "real list"

text \<open>The state at import time; \<open>loaded\<close> is the list read from the alerts file.\<close>

definition initial_state :: "alert_entry list \<Rightarrow> app_state" where
  "initial_state loaded =
     \<lparr> st_source = None, st_cap = None, st_running = False, st_frame_id = 0,
       st_engine = None, st_active_stream_id = None,
       st_stats = \<lparr> peak_density = 0, avg_density = 0, total_alerts = 0 \<rparr>,
       alerts_history = loaded, density_samples = [] \<rparr>"

definition ALLOWED_EXT :: "string list" where
  "ALLOWED_EXT = [''.mp4'', ''.avi'', ''.mov'', ''.mkv'', ''.flv'']"

text \<open>\<open>str.lower\<close> on ASCII letters; other characters are kept.\<close>

definition lower_char :: "char \<Rightarrow> char" where
  "lower_char c =
     (let n = (of_char c :: nat) in if 65 \<le> n \<and> n \<le> 90 then char_of (n + 32) else c)"

definition lower :: "string \<Rightarrow> string" where
  "lower s = map lower_char s"

definition endswith :: "string \<Rightarrow> string \<Rightarrow> bool" where
  "endswith s suffix =
     (length suffix \<le> length s \<and> drop (length s - length suffix) s = suffix)"

definition is_finite_file :: "string \<Rightarrow> bool" where
  "is_finite_file s = list_ex (endswith (lower s)) ALLOWED_EXT"

datatype read_result = Frame_Read observation real | Read_Failed

datatype effect =
    Sleep real
  | Release_Capture capture
  | Publish "alert_event list"
  | Save_Json "alert_entry list"

datatype loop_flow = Continue | Break | Raised failure

text \<open>The branch of \<open>video_loop\<close> taken when \<open>read\<close> returns no frame.\<close>

definition on_read_failure :: "capture \<Rightarrow> app_state \<Rightarrow> loop_flow \<times> app_state \<times> effect list" where
  "on_read_failure c st =
     (case st_source st of
        Some (Location s) \<Rightarrow>
          if is_finite_file s
          then (Continue,
                st\<lparr> st_cap := Some (c\<lparr>pos_frames := 0\<rparr>),
                    st_engine := map_option reset (st_engine st) \<rparr>,
                [])
          else (Continue,
                st\<lparr> st_cap := Some (open_capture (Location s)) \<rparr>,
                [Release_Capture c, Sleep 0.25])
      | _ \<Rightarrow> (Break, st, []))"

text \<open>
  The rest of the loop body, for a frame that was read; \<open>now\<close> is the clock reading of the
  engine's \<open>maybe_send_alert\<close> in this iteration.
\<close>

definition log_alert :: "engine \<Rightarrow> app_state \<Rightarrow> app_state \<times> effect list" where
  "log_alert e st =
     (if alert_active e \<and> last_alert_time e \<noteq> 0
      then
        let alert = \<lparr> al_density = current_density e, al_people = estimated_people e,
                      al_stream_id = st_active_stream_id st \<rparr>;
            appended = alerts_history st @ [alert];
            hist = (if 1000 < length appended then tl appended else appended)
        in (st\<lparr> alerts_history := hist,
                 st_stats := (st_stats st)\<lparr>total_alerts := length hist\<rparr> \<rparr>,
            [Save_Json (drop (length hist - 100) hist)])
      else (st, []))"

definition on_frame ::
  "observation \<Rightarrow> real \<Rightarrow> capture \<Rightarrow> app_state \<Rightarrow> loop_flow \<times> app_state \<times> effect list" where
  "on_frame ob now c st =
     (let st1 = st\<lparr> st_cap := Some (c\<lparr>pos_frames := pos_frames c + 1\<rparr>),
                     st_frame_id := st_frame_id st + 1 \<rparr>
      in case st_engine st1 of
           None \<Rightarrow> (Raised No_Engine, st1, [])
         | Some e \<Rightarrow>
             (case process_frame now (st_frame_id st1) ob e of
                Inl err \<Rightarrow> (Raised err, st1, [])
              | Inr (e', evs) \<Rightarrow>
                  let density = current_density e';
                      appended = density_samples st1 @ [density];
                      samples = (if 100 < length appended then tl appended else appended);
                      st2 = st1\<lparr> st_engine := Some e', density_samples := samples,
                                 st_stats := (st_stats st1)
                                   \<lparr> peak_density := max (peak_density (st_stats st1)) density,
                                     avg_density := sum_list samples / real (length samples) \<rparr> \<rparr>;
                      (st3, saved) = log_alert e' st2
                  in (Continue, st3, Publish evs # saved @ [Sleep 0.01])))"

definition loop_iteration :: "read_result \<Rightarrow> app_state \<Rightarrow> loop_flow \<times> app_state \<times> effect list" where
  "loop_iteration r st =
     (case st_cap st of
        None \<Rightarrow> (Continue, st, [Sleep 0.05])
      | Some c \<Rightarrow>
          (case r of
             Read_Failed \<Rightarrow> on_read_failure c st
           | Frame_Read ob now \<Rightarrow> on_frame ob now c st))"

datatype loop_end = Exited | Still_Running | Died failure

definition release_cap :: "app_state \<Rightarrow> app_state \<times> effect list" where
  "release_cap st =
     (case st_cap st of
        None \<Rightarrow> (st, [])
      | Some c \<Rightarrow> (st\<lparr>st_cap := Some (release c)\<rparr>, [Release_Capture c]))"

text \<open>
  \<open>video_loop\<close>, one element of the list for every iteration. When the list is used up the
  loop is still running; an exception of the engine ends the thread without the final
  release.
\<close>

fun video_loop :: "read_result list \<Rightarrow> app_state \<Rightarrow> loop_end \<times> app_state \<times> effect list" where
  "video_loop [] st =
     (if st_running st then (Still_Running, st, [])
      else let (st', fx) = release_cap st in (Exited, st', fx))"
| "video_loop (r # rs) st =
     (if st_running st
      then
        (case loop_iteration r st of
           (Continue, st', fx) \<Rightarrow>
             let (res, st'', fx') = video_loop rs st' in (res, st'', fx @ fx')
         | (Break, st', fx) \<Rightarrow>
             let (st'', fx') = release_cap st' in (Exited, st'', fx @ fx')
         | (Raised err, st', fx) \<Rightarrow> (Died err, st', fx))
      else let (st', fx) = release_cap st in (Exited, st', fx))"

subsection \<open>Session parameters\<close>

text \<open>
  A form field as \<open>float(request.form.get(name, default))\<close> sees it: absent, the text of a
  finite number, or text that \<open>float\<close> rejects.
\<close>

datatype form_field = Absent | Number real | Not_A_Number

definition float_field :: "real \<Rightarrow> form_field \<Rightarrow> real option" where
  "float_field dflt f =
     (case f of Absent \<Rightarrow> Some dflt | Number x \<Rightarrow> Some x | Not_A_Number \<Rightarrow> None)"

definition start_params :: "form_field \<Rightarrow> form_field \<Rightarrow> real \<times> real" where
  "start_params threshold opacity =
     (case (float_field 45 threshold, float_field 70 opacity) of
        (Some t, Some p) \<Rightarrow> (max 0 (min 1 (t / 100)), max 0.3 (min 1 (p / 100)))
      | _ \<Rightarrow> (0.45, 0.70))"

text \<open>
  \<open>start\<close> from the point where the source has been resolved; \<open>opened\<close> tells whether the
  capture could be opened.
\<close>

definition start ::
  "source \<Rightarrow> string option \<Rightarrow> form_field \<Rightarrow> form_field \<Rightarrow> bool \<Rightarrow> app_state \<Rightarrow> app_state" where
  "start src stream_id threshold opacity opened st =
     (let (thr, op) = start_params threshold opacity
      in if \<not> opened then st
         else st\<lparr> st_source := Some src, st_cap := Some (open_capture src),
                   st_engine := Some (new_engine thr op 3), st_frame_id := 0,
                   st_active_stream_id := stream_id, st_running := True,
                   st_stats := (st_stats st)\<lparr>peak_density := 0, avg_density := 0\<rparr>,
                   density_samples := [] \<rparr>)"

definition set_params :: "form_field \<Rightarrow> form_field \<Rightarrow> app_state \<Rightarrow> app_state" where
  "set_params threshold opacity st =
     (case st_engine st of
        None \<Rightarrow> st
      | Some e \<Rightarrow>
          (case (float_field 45 threshold, float_field 70 opacity) of
             (Some t, Some p) \<Rightarrow>
               st\<lparr> st_engine := Some (e\<lparr> density_threshold := max 0 (min 1 (t / 100)),
                                          heatmap_opacity := max 0.3 (min 1 (p / 100)) \<rparr>) \<rparr>
           | _ \<Rightarrow> st))"

text \<open>The fields of the \<open>/api/stats\<close> answer that are not rounded.\<close>

record stats_snapshot =
  sn_running :: bool
  sn_people :: int
  sn_total_alerts :: nat
  sn_alert_active :: bool

definition api_stats :: "app_state \<Rightarrow> stats_snapshot" where
  "api_stats st =
     \<lparr> sn_running = st_running st,
       sn_people = (case st_engine st of None \<Rightarrow> 0 | Some e \<Rightarrow> estimated_people e),
       sn_total_alerts = total_alerts (st_stats st),
       sn_alert_active = (case st_engine st of None \<Rightarrow> False | Some e \<Rightarrow> alert_active e) \<rparr>"

section \<open>Frames used in the examples\<close>

text \<open>
  Frames of 50 by 200 pixels, two rows of eight grid cells: still and without foreground,
  still and all foreground, all foreground with every gray value moved by 200, and the
  upper half foreground with every gray value moved by 200.
\<close>

definition vacant_frame :: observation where
  "vacant_frame =
     \<lparr> gray = replicate 50 (replicate 200 0), fg_mask = replicate 50 (replicate 200 0) \<rparr>"

definition crowded_frame :: observation where
  "crowded_frame =
     \<lparr> gray = replicate 50 (replicate 200 0), fg_mask = replicate 50 (replicate 200 255) \<rparr>"

definition panned_frame :: observation where
  "panned_frame =
     \<lparr> gray = replicate 50 (replicate 200 200), fg_mask = replicate 50 (replicate 200 255) \<rparr>"

definition upper_half_mask :: image where
  "upper_half_mask = replicate 25 (replicate 200 255) @ replicate 25 (replicate 200 0)"

definition sparse_panned_frame :: observation where
  "sparse_panned_frame =
     \<lparr> gray = replicate 50 (replicate 200 200), fg_mask = upper_half_mask \<rparr>"

section \<open>The region of complete cells\<close>

text \<open>
  Not a function of the source: the part of an image that lies in complete grid cells, the
  first \<open>(h div 25) * 25\<close> rows and \<open>(w div 25) * 25\<close> columns, and the rest of it.
\<close>

definition complete_cells :: "image \<Rightarrow> image" where
  "complete_cells img =
     map (take (shape_w img div grid_size * grid_size))
         (take (shape_h img div grid_size * grid_size) img)"

definition trailing_columns :: "image \<Rightarrow> image" where
  "trailing_columns img =
     map (drop (shape_w img div grid_size * grid_size))
         (take (shape_h img div grid_size * grid_size) img)"

definition trailing_rows :: "image \<Rightarrow> image" where
  "trailing_rows img = drop (shape_h img div grid_size * grid_size) img"

text \<open>A mask of 26 by 26 pixels whose only foreground pixel is the last one of the last row.\<close>

definition corner_pixel_mask :: image where
  "corner_pixel_mask = replicate 25 (replicate 26 0) @ [replicate 25 0 @ [255]]"

section \<open>Uniform images\<close>

lemma count_nonzero_uniform:
  "count_nonzero (replicate h (replicate w v)) = (if 0 < v then h * w else 0)"
  by (simp add: count_nonzero_def sum_list_replicate)

lemma shape_h_uniform: "shape_h (replicate h r) = h"
  by (simp add: shape_h_def)

lemma shape_w_uniform: "shape_w (replicate h (replicate w v)) = (if h = 0 then 0 else w)"
  by (cases h) (simp_all add: shape_w_def)

lemma absdiff_uniform:
  "absdiff (replicate h (replicate w a)) (replicate h (replicate w b)) =
     replicate h (replicate w (if b \<le> a then a - b else b - a))"
  by (simp add: absdiff_def zip_replicate map_replicate_const)

lemma threshold_binary_uniform:
  "threshold_binary t m (replicate h (replicate w v)) =
     replicate h (replicate w (if t < v then m else 0))"
  by (simp add: threshold_binary_def)

lemma cell_uniform:
  "cell (replicate h (replicate w v)) i j =
     replicate (min grid_size (h - i * grid_size)) (replicate (min grid_size (w - j * grid_size)) v)"
  by (simp add: cell_def)

lemma map_upt_const: "(\<And>i. i < n \<Longrightarrow> f i = c) \<Longrightarrow> map f [0..<n] = replicate n c"
  by (rule nth_equalityI) auto

lemma full_cell_extent: "0 < g \<Longrightarrow> i < n div g \<Longrightarrow> min g (n - i * g) = (g::nat)"
proof -
  assume g: "0 < g" and i: "i < n div g"
  then have "Suc i \<le> n div g" by simp
  then have "Suc i * g \<le> n div g * g" by (rule mult_le_mono1)
  also have "\<dots> \<le> n" by simp
  finally show ?thesis by simp
qed

lemma density_map_uniform:
  assumes "0 < h"
  shows "density_map (replicate h (replicate w v)) =
     replicate (h div grid_size) (replicate (w div grid_size) (if 0 < v then 1 else 0))"
proof -
  have inner: "map (\<lambda>j. real (count_nonzero (cell (replicate h (replicate w v)) i j)) /
                      real (grid_size ^ 2)) [0..<w div grid_size] =
               replicate (w div grid_size) (if 0 < v then 1 else 0)"
    if "i < h div grid_size" for i
    using that
    by (intro map_upt_const)
       (simp add: cell_uniform count_nonzero_uniform full_cell_extent grid_size_def power2_eq_square)
  have width: "shape_w (replicate h (replicate w v)) = w"
    using assms by (simp add: shape_w_uniform)
  show ?thesis
    unfolding density_map_def Let_def shape_h_uniform width
    by (rule map_upt_const) (rule inner)
qed


lemma shape_w_append: "a \<noteq> [] \<Longrightarrow> shape_w (a @ b) = shape_w a"
  by (cases a) (simp_all add: shape_w_def)

lemma count_nonzero_append: "count_nonzero (a @ b) = count_nonzero a + count_nonzero b"
  by (simp add: count_nonzero_def)

lemma concat_uniform: "concat (replicate a (replicate b v)) = replicate (a * b) v"
  by (induction a) (simp_all add: replicate_add)

lemma grid_mean_uniform:
  "0 < a \<Longrightarrow> 0 < b \<Longrightarrow> grid_mean (replicate a (replicate b v)) = Inr v"
  by (simp add: grid_mean_def concat_uniform sum_list_replicate)

lemma cell_upper:
  assumes "length a = k * grid_size" "i < k"
  shows "cell (a @ b) i j = cell a i j"
proof -
  have "Suc i \<le> k" using assms(2) by simp
  then have "Suc i * grid_size \<le> k * grid_size" by (rule mult_le_mono1)
  then have "i * grid_size + grid_size \<le> length a" using assms(1) by simp
  then show ?thesis by (simp add: cell_def)
qed

lemma cell_lower:
  assumes "length a = k * grid_size"
  shows "cell (a @ b) (i + k) j = cell b i j"
  using assms by (simp add: cell_def add_mult_distrib)

lemma density_map_stack:
  assumes len: "length a = k * grid_size" and a: "a \<noteq> []" and b: "b \<noteq> []"
      and w: "shape_w b = shape_w a"
  shows "density_map (a @ b) = density_map a @ density_map b"
proof -
  let ?gw = "shape_w a div grid_size"
  let ?m = "length b div grid_size"
  let ?row = "\<lambda>img i. map (\<lambda>j. real (count_nonzero (cell img i j)) / real (grid_size ^ 2))
                         [0..<?gw]"
  have g: "0 < grid_size" by (simp add: grid_size_def)
  have h: "shape_h (a @ b) div grid_size = ?m + k"
    using len g by (simp add: shape_h_def)
  have wa: "shape_w (a @ b) = shape_w a" using a by (cases a) (simp_all add: shape_w_def)
  have ha: "shape_h a div grid_size = k" using len g by (simp add: shape_h_def)
  have upper: "map (?row (a @ b)) [0..<k] = map (?row a) [0..<k]"
    by (intro map_cong refl) (simp add: cell_upper [OF len])
  have "map (?row (a @ b)) [k..<?m + k] = map (?row (a @ b)) (map (\<lambda>i. i + k) [0..<?m])"
    by (simp only: map_add_upt)
  also have "\<dots> = map (\<lambda>i. ?row (a @ b) (i + k)) [0..<?m]"
    by (simp add: comp_def)
  also have "\<dots> = map (?row b) [0..<?m]"
    by (simp add: cell_lower [OF len])
  finally have lower: "map (?row (a @ b)) [k..<?m + k] = map (?row b) [0..<?m]" .
  have "[0..<?m + k] = [0..<k] @ [k..<?m + k]"
    by (metis add.commute le_add1 upt_add_eq_append zero_le)
  then have "map (?row (a @ b)) [0..<?m + k] = map (?row a) [0..<k] @ map (?row b) [0..<?m]"
    using upper lower by simp
  then show ?thesis
    unfolding density_map_def Let_def h wa w ha shape_h_def [of b] by simp
qed

lemma upper_half_density:
  "density_map upper_half_mask = [replicate 8 1, replicate 8 0]"
proof -
  let ?a = "replicate 25 (replicate 200 (255::8 word))"
  let ?b = "replicate 25 (replicate 200 (0::8 word))"
  have "density_map (?a @ ?b) = density_map ?a @ density_map ?b"
    by (rule density_map_stack [where k = 1])
       (simp_all add: grid_size_def shape_w_uniform)
  then show ?thesis
    by (simp add: upper_half_mask_def density_map_uniform grid_size_def)
qed

lemma upper_half_count: "count_nonzero upper_half_mask = 5000"
  by (simp add: upper_half_mask_def count_nonzero_append count_nonzero_uniform)

lemma upper_half_shape: "shape_h upper_half_mask = 50" "shape_w upper_half_mask = 200"
  by (simp_all add: upper_half_mask_def shape_h_def shape_w_append shape_w_uniform)

lemma upper_half_mean: "grid_mean (density_map upper_half_mask) = Inr (1 / 2)"
  by (simp add: upper_half_density grid_mean_def sum_list_replicate)

section \<open>Facts about the alert calls\<close>

lemma maybe_send_alert_config:
  "density_threshold (fst (maybe_send_alert now fid e)) = density_threshold e"
  "alert_cooldown (fst (maybe_send_alert now fid e)) = alert_cooldown e"
  "current_density (fst (maybe_send_alert now fid e)) = current_density e"
  by (simp_all add: maybe_send_alert_def Let_def)

lemma legend_fits_iff: "legend_fits h w = (50 \<le> h \<and> 180 \<le> w)"
  by (auto simp: legend_fits_def slice_len_def Let_def max_def min_def split: if_splits)

lemma process_frame_rendered:
  assumes "process_frame now fid ob e = Inr (e', evs)"
  shows "legend_fits (shape_h (fg_mask ob)) (shape_w (fg_mask ob))"
  using assms
  by (auto simp: process_frame_def Let_def split: sum.splits prod.splits if_splits)

lemma detect_camera_pan_alert_fields:
  assumes "detect_camera_pan g e = Inr (e1, pan)"
  shows "alert_active e1 = alert_active e \<and> last_alert_time e1 = last_alert_time e \<and>
         density_threshold e1 = density_threshold e \<and> alert_cooldown e1 = alert_cooldown e \<and>
         density_history e1 = density_history e"
  using assms by (auto simp: detect_camera_pan_def Let_def split: option.splits if_splits)

lemma process_frame_alert_call:
  assumes "process_frame now fid ob e = Inr (e', evs)"
  shows "\<exists>e4. maybe_send_alert now fid e4 = (e', evs) \<and>
              alert_active e4 = alert_active e \<and> last_alert_time e4 = last_alert_time e \<and>
              density_threshold e4 = density_threshold e \<and> alert_cooldown e4 = alert_cooldown e"
proof -
  obtain e1 pan where pan: "detect_camera_pan (gray ob) e = Inr (e1, pan)"
    using assms by (auto simp: process_frame_def split: sum.splits)
  obtain d where d: "overall_density (fg_mask ob) pan = Inr d"
    using assms pan by (auto simp: process_frame_def Let_def split: sum.splits)
  note f = detect_camera_pan_alert_fields [OF pan]
  note fits = process_frame_rendered [OF assms]
  show ?thesis
    using assms pan d f fits
    by (auto simp: process_frame_def Let_def intro!: exI)
qed

lemma first_crossing:
  assumes "\<not> alert_active e" "density_threshold e < current_density e"
  shows "maybe_send_alert now fid e =
           (e\<lparr>last_alert_time := now, alert_active := True\<rparr>, [payload e fid HIGH])"
  using assms by (simp add: maybe_send_alert_def Let_def)

lemma cooldown_quiet:
  assumes "alert_active e" "density_threshold e < current_density e"
          "now < last_alert_time e + alert_cooldown e"
  shows "maybe_send_alert now fid e = (e, [])"
  using assms by (simp add: maybe_send_alert_def Let_def)

lemma cooldown_repeat:
  assumes "alert_active e" "density_threshold e < current_density e"
          "last_alert_time e + alert_cooldown e \<le> now"
  shows "maybe_send_alert now fid e =
           (e\<lparr>last_alert_time := now, alert_active := True\<rparr>, [payload e fid HIGH])"
  using assms by (simp add: maybe_send_alert_def Let_def)

lemma process_frame_over:
  assumes pf: "process_frame now fid ob e = Inr (e', evs)"
      and over: "density_threshold e < current_density e'"
  shows "\<exists>e4. maybe_send_alert now fid e4 = (e', evs) \<and>
              alert_active e4 = alert_active e \<and> last_alert_time e4 = last_alert_time e \<and>
              density_threshold e4 = density_threshold e \<and> alert_cooldown e4 = alert_cooldown e \<and>
              density_threshold e4 < current_density e4"
proof -
  obtain e4 where e4: "maybe_send_alert now fid e4 = (e', evs)"
      "alert_active e4 = alert_active e" "last_alert_time e4 = last_alert_time e"
      "density_threshold e4 = density_threshold e" "alert_cooldown e4 = alert_cooldown e"
    using process_frame_alert_call [OF pf] by blast
  have "current_density e4 = current_density e'"
    using maybe_send_alert_config(3) [of now fid e4] e4(1) by simp
  then show ?thesis using e4 over by auto
qed

lemma high_event_iff:
  "(HIGH \<in> ev_status ` set (snd (maybe_send_alert now fid e))) =
     (density_threshold e < current_density e \<and>
        (\<not> alert_active e \<or> alert_cooldown e \<le> now - last_alert_time e))"
  by (auto simp: maybe_send_alert_def payload_def Let_def split: if_splits)

lemma clear_event_iff:
  "(CLEAR \<in> ev_status ` set (snd (maybe_send_alert now fid e))) =
     (alert_active e \<and> current_density e \<le> density_threshold e \<and>
      2 \<le> now - last_alert_time e)"
  by (auto simp: maybe_send_alert_def payload_def Let_def split: if_splits)

lemma process_frame_alert_state:
  assumes pf: "process_frame now fid ob e = Inr (e', evs)"
  shows "\<exists>e4. maybe_send_alert now fid e4 = (e', evs) \<and>
              alert_active e4 = alert_active e \<and> last_alert_time e4 = last_alert_time e \<and>
              density_threshold e4 = density_threshold e \<and> alert_cooldown e4 = alert_cooldown e \<and>
              current_density e4 = current_density e'"
proof -
  obtain e4 where e4: "maybe_send_alert now fid e4 = (e', evs)"
      "alert_active e4 = alert_active e" "last_alert_time e4 = last_alert_time e"
      "density_threshold e4 = density_threshold e" "alert_cooldown e4 = alert_cooldown e"
    using process_frame_alert_call [OF pf] by blast
  have "current_density e4 = current_density e'"
    using maybe_send_alert_config(3) [of now fid e4] e4(1) by simp
  then show ?thesis using e4 by auto
qed

lemma frame_high_event_iff:
  assumes pf: "process_frame now fid ob e = Inr (e', evs)"
  shows "(HIGH \<in> ev_status ` set evs) =
           (density_threshold e < current_density e' \<and>
              (\<not> alert_active e \<or> alert_cooldown e \<le> now - last_alert_time e))"
proof -
  from process_frame_alert_state [OF pf] obtain e4 where
      e4: "maybe_send_alert now fid e4 = (e', evs)" "alert_active e4 = alert_active e"
        "last_alert_time e4 = last_alert_time e" "density_threshold e4 = density_threshold e"
        "alert_cooldown e4 = alert_cooldown e" "current_density e4 = current_density e'"
    by blast
  show ?thesis using high_event_iff [of now fid e4] e4 by simp
qed

lemma frame_clear_event_iff:
  assumes pf: "process_frame now fid ob e = Inr (e', evs)"
  shows "(CLEAR \<in> ev_status ` set evs) =
           (alert_active e \<and> current_density e' \<le> density_threshold e \<and>
            2 \<le> now - last_alert_time e)"
proof -
  from process_frame_alert_state [OF pf] obtain e4 where
      e4: "maybe_send_alert now fid e4 = (e', evs)" "alert_active e4 = alert_active e"
        "last_alert_time e4 = last_alert_time e" "density_threshold e4 = density_threshold e"
        "alert_cooldown e4 = alert_cooldown e" "current_density e4 = current_density e'"
    by blast
  show ?thesis using clear_event_iff [of now fid e4] e4 by simp
qed

lemma quiet_then_repeat:
  assumes "alert_active e" "last_alert_time e = T"
      and "run_frames (fs @ [(t', fid', ob')]) e = Inr tr"
      and "\<forall>(e', evs) \<in> set tr. density_threshold e < current_density e'"
      and "\<forall>(t, fid, ob) \<in> set fs. t < T + alert_cooldown e"
      and "T + alert_cooldown e \<le> t'"
  shows "map (map ev_status \<circ> snd) tr = replicate (length fs) [] @ [[HIGH]]"
  using assms
proof (induction fs arbitrary: e tr)
  case Nil
  from Nil.prems(3) obtain e' evs where pf: "process_frame t' fid' ob' e = Inr (e', evs)"
      and tr: "tr = [(e', evs)]"
    by (auto split: sum.splits)
  from Nil.prems(4) tr have "density_threshold e < current_density e'" by simp
  from process_frame_over [OF pf this] obtain e4 where
      e4: "maybe_send_alert t' fid' e4 = (e', evs)" "alert_active e4 = alert_active e"
        "last_alert_time e4 = last_alert_time e" "density_threshold e4 = density_threshold e"
        "alert_cooldown e4 = alert_cooldown e" "density_threshold e4 < current_density e4"
    by blast
  have "maybe_send_alert t' fid' e4 =
          (e4\<lparr>last_alert_time := t', alert_active := True\<rparr>, [payload e4 fid' HIGH])"
    using e4 Nil.prems by (intro cooldown_repeat) simp_all
  with e4(1) have "evs = [payload e4 fid' HIGH]" by simp
  then show ?case using tr by (simp add: payload_def comp_def)
next
  case (Cons f fs)
  obtain t fid ob where f: "f = (t, fid, ob)" by (cases f)
  from Cons.prems(3) f obtain e' evs tr' where pf: "process_frame t fid ob e = Inr (e', evs)"
      and rest: "run_frames (fs @ [(t', fid', ob')]) e' = Inr tr'"
      and tr: "tr = (e', evs) # tr'"
    by (auto split: sum.splits)
  from Cons.prems(4) tr have "density_threshold e < current_density e'" by simp
  from process_frame_over [OF pf this] obtain e4 where
      e4: "maybe_send_alert t fid e4 = (e', evs)" "alert_active e4 = alert_active e"
        "last_alert_time e4 = last_alert_time e" "density_threshold e4 = density_threshold e"
        "alert_cooldown e4 = alert_cooldown e" "density_threshold e4 < current_density e4"
    by blast
  have "t < T + alert_cooldown e" using Cons.prems(5) f by simp
  then have "maybe_send_alert t fid e4 = (e4, [])"
    using e4 Cons.prems by (intro cooldown_quiet) simp_all
  with e4(1) have same: "e' = e4" "evs = []" by simp_all
  have "map (map ev_status \<circ> snd) tr' = replicate (length fs) [] @ [[HIGH]]"
  proof (rule Cons.IH [OF _ _ rest])
    show "alert_active e'" using same e4 Cons.prems by simp
    show "last_alert_time e' = T" using same e4 Cons.prems by simp
    show "\<forall>(e'', evs) \<in> set tr'. density_threshold e' < current_density e''"
      using Cons.prems(4) tr same e4 by auto
    show "\<forall>(t, fid, ob) \<in> set fs. t < T + alert_cooldown e'"
      using Cons.prems(5) same e4 by auto
    show "T + alert_cooldown e' \<le> t'" using Cons.prems(6) same e4 by simp
  qed
  then show ?case using tr same by (simp add: comp_def)
qed

lemma first_then_quiet_then_repeat:
  assumes "\<not> alert_active e"
      and "run_frames ((T, fid, ob) # fs @ [(t', fid', ob')]) e = Inr tr"
      and "\<forall>(e', evs) \<in> set tr. density_threshold e < current_density e'"
      and "\<forall>(t, fid, ob) \<in> set fs. t < T + alert_cooldown e"
      and "T + alert_cooldown e \<le> t'"
  shows "map (map ev_status \<circ> snd) tr = [[HIGH]] @ replicate (length fs) [] @ [[HIGH]]"
proof -
  from assms(2) obtain e' evs tr' where pf: "process_frame T fid ob e = Inr (e', evs)"
      and rest: "run_frames (fs @ [(t', fid', ob')]) e' = Inr tr'"
      and tr: "tr = (e', evs) # tr'"
    by (auto split: sum.splits)
  from assms(3) tr have "density_threshold e < current_density e'" by simp
  from process_frame_over [OF pf this] obtain e4 where
      e4: "maybe_send_alert T fid e4 = (e', evs)" "alert_active e4 = alert_active e"
        "last_alert_time e4 = last_alert_time e" "density_threshold e4 = density_threshold e"
        "alert_cooldown e4 = alert_cooldown e" "density_threshold e4 < current_density e4"
    by blast
  have "maybe_send_alert T fid e4 =
          (e4\<lparr>last_alert_time := T, alert_active := True\<rparr>, [payload e4 fid HIGH])"
    using e4 assms(1) by (intro first_crossing) simp_all
  with e4(1) have same: "e' = e4\<lparr>last_alert_time := T, alert_active := True\<rparr>"
      "evs = [payload e4 fid HIGH]" by simp_all
  have "map (map ev_status \<circ> snd) tr' = replicate (length fs) [] @ [[HIGH]]"
  proof (rule quiet_then_repeat [OF _ _ rest])
    show "alert_active e'" using same by simp
    show "last_alert_time e' = T" using same by simp
    show "\<forall>(e'', evs) \<in> set tr'. density_threshold e' < current_density e''"
      using assms(3) tr same e4 by auto
    show "\<forall>(t, fid, ob) \<in> set fs. t < T + alert_cooldown e'"
      using assms(4) same e4 by auto
    show "T + alert_cooldown e' \<le> t'" using assms(5) same e4 by simp
  qed
  then show ?thesis using tr same by (simp add: payload_def comp_def)
qed

lemmas frame_eval =
  process_frame_def detect_camera_pan_def overall_density_def grid_mean_uniform
  density_map_uniform count_nonzero_uniform absdiff_uniform threshold_binary_uniform
  shape_h_uniform shape_w_uniform grid_size_def deque_append_def maxlen_def mean_def
  estimate_people_def maybe_send_alert_def payload_def new_engine_def Let_def
  legend_fits_iff vacant_frame_def crowded_frame_def panned_frame_def
  sparse_panned_frame_def upper_half_mean upper_half_count upper_half_shape

section \<open>The alert state machine\<close>

text \<open>
  C1. A call of \<open>maybe_send_alert\<close> builds a HIGH event exactly when the smoothed density
  is above the threshold and the alert is not active or the cooldown has passed since the
  last transition; so a processed frame builds a HIGH event exactly when the density it
  has computed is above the threshold and, before the frame, the alert was not active or
  the cooldown had passed. For frames processed one after the other, starting without an
  active alert, whose densities are all above the threshold: the frame at time \<open>T\<close> gives a
  HIGH event, the frames that follow before \<open>T + cooldown\<close> give no event, and the first
  frame at or after \<open>T + cooldown\<close> gives a HIGH event again.
\<close>

theorem alert_entry_cooldown:
  "(HIGH \<in> ev_status ` set (snd (maybe_send_alert now fid e))) =
     (density_threshold e < current_density e \<and>
        (\<not> alert_active e \<or> alert_cooldown e \<le> now - last_alert_time e))
   \<and> (process_frame now fid ob e = Inr (e', evs) \<longrightarrow>
        (HIGH \<in> ev_status ` set evs) =
          (density_threshold e < current_density e' \<and>
             (\<not> alert_active e \<or> alert_cooldown e \<le> now - last_alert_time e)))
   \<and> (\<not> alert_active e \<longrightarrow>
        run_frames ((T, fid0, ob0) # fs @ [(t', fid', ob')]) e = Inr tr \<longrightarrow>
        (\<forall>(e', evs) \<in> set tr. density_threshold e < current_density e') \<longrightarrow>
        (\<forall>(t, fid, ob) \<in> set fs. t < T + alert_cooldown e) \<longrightarrow>
        T + alert_cooldown e \<le> t' \<longrightarrow>
        map (map ev_status \<circ> snd) tr = [[HIGH]] @ replicate (length fs) [] @ [[HIGH]])"
proof (intro conjI impI)
  show "(HIGH \<in> ev_status ` set (snd (maybe_send_alert now fid e))) =
     (density_threshold e < current_density e \<and>
        (\<not> alert_active e \<or> alert_cooldown e \<le> now - last_alert_time e))"
    by (rule high_event_iff)
  show "(HIGH \<in> ev_status ` set evs) =
          (density_threshold e < current_density e' \<and>
             (\<not> alert_active e \<or> alert_cooldown e \<le> now - last_alert_time e))"
    if "process_frame now fid ob e = Inr (e', evs)"
    using that by (rule frame_high_event_iff)
qed (rule first_then_quiet_then_repeat)

theorem alert_entry_cooldown_witness:
  "\<not> alert_active (new_engine 0.45 0.7 3) \<and>
   (10::real) + alert_cooldown (new_engine 0.45 0.7 3) \<le> 13 \<and>
   map (map ev_status \<circ> snd)
     (projr (run_frames [(10, 1, crowded_frame), (11, 2, crowded_frame), (13, 3, crowded_frame)]
        (new_engine 0.45 0.7 3))) = [[HIGH], [], [HIGH]]"
proof -
  let ?e = "new_engine 0.45 0.7 3"
  let ?fs = "[(11::real, 2::nat, crowded_frame)]"
  have "\<exists>tr. run_frames ((10, 1, crowded_frame) # ?fs @ [(13, 3, crowded_frame)]) ?e = Inr tr \<and>
          (\<forall>(e', evs) \<in> set tr. density_threshold ?e < current_density e')"
    by (simp add: frame_eval)
  then obtain tr where
      run: "run_frames ((10, 1, crowded_frame) # ?fs @ [(13, 3, crowded_frame)]) ?e = Inr tr"
      and over: "\<forall>(e', evs) \<in> set tr. density_threshold ?e < current_density e'"
    by blast
  have idle: "\<not> alert_active ?e" by (simp add: new_engine_def)
  have early: "\<forall>(t, fid, ob) \<in> set ?fs. t < 10 + alert_cooldown ?e"
    by (simp add: new_engine_def)
  have late: "(10::real) + alert_cooldown ?e \<le> 13" by (simp add: new_engine_def)
  have "map (map ev_status \<circ> snd) tr = [[HIGH]] @ replicate (length ?fs) [] @ [[HIGH]]"
    using alert_entry_cooldown [where e = ?e and T = 10 and ?fid0.0 = 1 and ?ob0.0 = crowded_frame
          and fs = ?fs and t' = 13 and fid' = 3 and ob' = crowded_frame and tr = tr]
      idle run over early late by blast
  then show ?thesis using run idle late by simp
qed

text \<open>
  C2. A call of \<open>maybe_send_alert\<close> builds a CLEAR event exactly when the alert is active,
  the smoothed density is at or below the threshold and at least 2 seconds have passed
  since the last transition; so a processed frame builds a CLEAR event exactly when the
  alert was active before it, the density it has computed is at or below the threshold
  and the 2 seconds had passed. With the alert active and the density at or below the
  threshold, a call before the 2 seconds are over builds no event and leaves the state as
  it is, and a call at or after them builds the CLEAR event, and no other, and ends the
  alert.
\<close>

theorem alert_exit_hysteresis:
  "(CLEAR \<in> ev_status ` set (snd (maybe_send_alert now fid e))) =
     (alert_active e \<and> current_density e \<le> density_threshold e \<and>
      2 \<le> now - last_alert_time e)
   \<and> (process_frame now fid ob e = Inr (e', evs) \<longrightarrow>
        (CLEAR \<in> ev_status ` set evs) =
          (alert_active e \<and> current_density e' \<le> density_threshold e \<and>
           2 \<le> now - last_alert_time e))
   \<and> (alert_active e \<longrightarrow> current_density e \<le> density_threshold e \<longrightarrow>
        now - last_alert_time e < 2 \<longrightarrow> maybe_send_alert now fid e = (e, []))
   \<and> (alert_active e \<longrightarrow> current_density e \<le> density_threshold e \<longrightarrow>
        2 \<le> now - last_alert_time e \<longrightarrow>
        map ev_status (snd (maybe_send_alert now fid e)) = [CLEAR] \<and>
        \<not> alert_active (fst (maybe_send_alert now fid e)) \<and>
        last_alert_time (fst (maybe_send_alert now fid e)) = now)"
proof (intro conjI impI)
  show "(CLEAR \<in> ev_status ` set (snd (maybe_send_alert now fid e))) =
     (alert_active e \<and> current_density e \<le> density_threshold e \<and>
      2 \<le> now - last_alert_time e)"
    by (rule clear_event_iff)
  show "(CLEAR \<in> ev_status ` set evs) =
          (alert_active e \<and> current_density e' \<le> density_threshold e \<and>
           2 \<le> now - last_alert_time e)"
    if "process_frame now fid ob e = Inr (e', evs)"
    using that by (rule frame_clear_event_iff)
  show "maybe_send_alert now fid e = (e, [])"
    if "alert_active e" "current_density e \<le> density_threshold e" "now - last_alert_time e < 2"
    using that by (simp add: maybe_send_alert_def Let_def)
next
  assume "alert_active e" "current_density e \<le> density_threshold e"
    "2 \<le> now - last_alert_time e"
  then have "maybe_send_alert now fid e =
      (e\<lparr>last_alert_time := now, alert_active := False\<rparr>, [payload e fid CLEAR])"
    by (simp add: maybe_send_alert_def Let_def)
  then show "map ev_status (snd (maybe_send_alert now fid e)) = [CLEAR]"
    "\<not> alert_active (fst (maybe_send_alert now fid e))"
    "last_alert_time (fst (maybe_send_alert now fid e)) = now"
    by (simp_all add: payload_def)
qed

theorem alert_exit_hysteresis_witness:
  "alert_active (fst (maybe_send_alert 10 1 ((new_engine 0.45 0.7 3)\<lparr>current_density := 1\<rparr>))) \<and>
   maybe_send_alert 11 2
     ((fst (maybe_send_alert 10 1 ((new_engine 0.45 0.7 3)\<lparr>current_density := 1\<rparr>)))
        \<lparr>current_density := 0.2\<rparr>) =
     ((fst (maybe_send_alert 10 1 ((new_engine 0.45 0.7 3)\<lparr>current_density := 1\<rparr>)))
        \<lparr>current_density := 0.2\<rparr>, []) \<and>
   map ev_status (snd (maybe_send_alert 12 3
     ((fst (maybe_send_alert 10 1 ((new_engine 0.45 0.7 3)\<lparr>current_density := 1\<rparr>)))
        \<lparr>current_density := 0.2\<rparr>))) = [CLEAR]"
proof -
  let ?e = "(fst (maybe_send_alert 10 1 ((new_engine 0.45 0.7 3)\<lparr>current_density := 1\<rparr>)))
        \<lparr>current_density := 0.2\<rparr>"
  have active: "alert_active ?e" and below: "current_density ?e \<le> density_threshold ?e"
    and last: "last_alert_time ?e = 10"
    by (simp_all add: maybe_send_alert_def new_engine_def Let_def)
  show ?thesis
    using alert_exit_hysteresis [where now = 11 and fid = 2 and e = ?e]
      alert_exit_hysteresis [where now = 12 and fid = 3 and e = ?e]
      active below last
    by simp
qed

text \<open>
  C6, as the code has it. The flag \<open>alert_active\<close> is false in a new engine.
  \<open>maybe_send_alert\<close>, and with it \<open>process_frame\<close>, sets it to true when it builds a HIGH
  event, to false when it builds a CLEAR event and leaves it alone otherwise;
  \<open>detect_camera_pan\<close> leaves it alone. \<open>reset\<close> sets it to false, whatever it was, and
  leaves the time of the last transition, the threshold and the cooldown as they are,
  while it empties the density history and forgets the previous frame; it returns the
  engine only, so it builds no event.
\<close>

theorem alert_active_changes:
  "\<not> alert_active (new_engine thr op cooldown)
   \<and> alert_active (fst (maybe_send_alert now fid e)) =
       (if HIGH \<in> ev_status ` set (snd (maybe_send_alert now fid e)) then True
        else if CLEAR \<in> ev_status ` set (snd (maybe_send_alert now fid e)) then False
        else alert_active e)
   \<and> (detect_camera_pan g e = Inr (e1, pan) \<longrightarrow> alert_active e1 = alert_active e)
   \<and> (process_frame now fid ob e = Inr (e', evs) \<longrightarrow>
        alert_active e' =
          (if HIGH \<in> ev_status ` set evs then True
           else if CLEAR \<in> ev_status ` set evs then False
           else alert_active e))
   \<and> \<not> alert_active (reset e)
   \<and> last_alert_time (reset e) = last_alert_time e
   \<and> density_threshold (reset e) = density_threshold e
   \<and> alert_cooldown (reset e) = alert_cooldown e
   \<and> density_history (reset e) = []
   \<and> prev_gray (reset e) = None"
proof (intro conjI impI)
  show "\<not> alert_active (new_engine thr op cooldown)" by (simp add: new_engine_def)
  show msa: "alert_active (fst (maybe_send_alert now fid e)) =
       (if HIGH \<in> ev_status ` set (snd (maybe_send_alert now fid e)) then True
        else if CLEAR \<in> ev_status ` set (snd (maybe_send_alert now fid e)) then False
        else alert_active e)" for now fid e
    by (auto simp: maybe_send_alert_def payload_def Let_def split: if_splits)
  show "alert_active e1 = alert_active e" if "detect_camera_pan g e = Inr (e1, pan)"
    using detect_camera_pan_alert_fields [OF that] by simp
  show "alert_active e' =
          (if HIGH \<in> ev_status ` set evs then True
           else if CLEAR \<in> ev_status ` set evs then False
           else alert_active e)" if pf: "process_frame now fid ob e = Inr (e', evs)"
  proof -
    obtain e4 where e4: "maybe_send_alert now fid e4 = (e', evs)"
        "alert_active e4 = alert_active e"
      using process_frame_alert_call [OF pf] by blast
    show ?thesis using msa [of now fid e4] e4 by simp
  qed
  show "\<not> alert_active (reset e)" by (simp add: reset_def)
  show "last_alert_time (reset e) = last_alert_time e" by (simp add: reset_def)
  show "density_threshold (reset e) = density_threshold e" by (simp add: reset_def)
  show "alert_cooldown (reset e) = alert_cooldown e" by (simp add: reset_def)
  show "density_history (reset e) = []" by (simp add: reset_def)
  show "prev_gray (reset e) = None" by (simp add: reset_def)
qed

theorem alert_active_changes_witness:
  "alert_active (fst (projr (process_frame 10 1 crowded_frame (new_engine 0.45 0.7 3)))) \<and>
   map ev_status (snd (projr (process_frame 10 1 crowded_frame (new_engine 0.45 0.7 3)))) = [HIGH] \<and>
   \<not> alert_active (reset (fst (projr (process_frame 10 1 crowded_frame (new_engine 0.45 0.7 3))))) \<and>
   last_alert_time (reset (fst (projr (process_frame 10 1 crowded_frame (new_engine 0.45 0.7 3)))))
     = 10"
proof -
  let ?e = "new_engine 0.45 0.7 3"
  let ?r = "projr (process_frame 10 1 crowded_frame ?e)"
  note changes =
    alert_active_changes [where now = 10 and fid = 1 and e = ?e and ob = crowded_frame
        and e' = "fst ?r" and evs = "snd ?r"]
  have run: "process_frame 10 1 crowded_frame ?e = Inr (fst ?r, snd ?r)"
    by (simp add: frame_eval)
  have high: "map ev_status (snd ?r) = [HIGH]"
    by (simp add: frame_eval)
  have "ev_status ` set (snd ?r) = set (map ev_status (snd ?r))" by simp
  then have mem: "HIGH \<in> ev_status ` set (snd ?r)" unfolding high by simp
  have "alert_active (fst ?r) =
          (if HIGH \<in> ev_status ` set (snd ?r) then True
           else if CLEAR \<in> ev_status ` set (snd ?r) then False
           else alert_active ?e)"
    using changes run by blast
  then have active: "alert_active (fst ?r)" using mem by simp
  have stamp: "last_alert_time (fst ?r) = 10" by (simp add: frame_eval)
  have "\<not> alert_active (reset (fst ?r))"
    using alert_active_changes [where e = "fst ?r"] by blast
  moreover have "last_alert_time (reset (fst ?r)) = last_alert_time (fst ?r)"
    using alert_active_changes [where e = "fst ?r"] by blast
  ultimately show ?thesis using active high stamp by simp
qed

theorem reset_clears_alert_counterexample:
  "alert_active (reset (fst (maybe_send_alert 10 1 ((new_engine 0.45 0.7 3)\<lparr>current_density := 1\<rparr>))))
     \<noteq> alert_active (fst (maybe_send_alert 10 1 ((new_engine 0.45 0.7 3)\<lparr>current_density := 1\<rparr>)))"
  by (simp add: reset_def maybe_send_alert_def new_engine_def Let_def)

section \<open>What a processed frame leaves in the state\<close>

lemma maybe_send_alert_measurements:
  "density_history (fst (maybe_send_alert now fid e)) = density_history e"
  "estimated_people (fst (maybe_send_alert now fid e)) = estimated_people e"
  "prev_gray (fst (maybe_send_alert now fid e)) = prev_gray e"
  by (simp_all add: maybe_send_alert_def Let_def)

lemma process_frame_measurements:
  assumes "process_frame now fid ob e = Inr (e', evs)"
  shows "\<exists>e1 pan d. detect_camera_pan (gray ob) e = Inr (e1, pan) \<and>
           overall_density (fg_mask ob) pan = Inr d \<and>
           density_history e' = deque_append d (density_history e) \<and>
           current_density e' = mean (density_history e') \<and>
           estimated_people e' = estimate_people (count_nonzero (fg_mask ob)) pan"
proof -
  obtain e1 pan where pan: "detect_camera_pan (gray ob) e = Inr (e1, pan)"
    using assms by (auto simp: process_frame_def split: sum.splits)
  obtain d where d: "overall_density (fg_mask ob) pan = Inr d"
    using assms pan by (auto simp: process_frame_def Let_def split: sum.splits)
  let ?hist = "deque_append d (density_history e1)"
  let ?e4 = "e1\<lparr> bg_subtractor := bg_subtractor e1 @ [if pan then 0.03 else 0.01],
                  density_history := ?hist, current_density := mean ?hist,
                  estimated_people := estimate_people (count_nonzero (fg_mask ob)) pan \<rparr>"
  have "maybe_send_alert now fid ?e4 = (e', evs)"
    using assms pan d process_frame_rendered [OF assms]
    by (simp add: process_frame_def Let_def)
  then have e': "e' = fst (maybe_send_alert now fid ?e4)" by simp
  have "density_history e1 = density_history e"
    using detect_camera_pan_alert_fields [OF pan] by simp
  then show ?thesis
    using pan d unfolding e'
    by (simp add: maybe_send_alert_measurements maybe_send_alert_config)
qed

lemma last_deque_append: "last (deque_append x h) = x"
  by (cases h) (simp_all add: deque_append_def Let_def maxlen_def)

lemma deque_append_nonempty: "deque_append x h \<noteq> []"
  by (cases h) (simp_all add: deque_append_def Let_def maxlen_def)

lemma estimate_people_still: "1 \<le> estimate_people n False"
  by (simp add: estimate_people_def Let_def)

lemma estimate_people_order: "estimate_people n False = max 1 (2 * (int n div 800) div 7)"
  by (simp add: estimate_people_def Let_def max_def)

lemma estimate_people_pan: "estimate_people n True = estimate_people n False div 2"
  by (simp add: estimate_people_def Let_def)

lemma halved_estimate_zero:
  "0 \<le> q \<Longrightarrow> (max 1 (2 * max 1 q div 7) div 2 = 0) = (q < (7::int))"
proof (cases "q < 7")
  case True
  assume "0 \<le> q"
  have "2 * max 1 q div 7 \<le> 1" using True by (simp add: max_def) presburger
  then have "max 1 (2 * max 1 q div 7) = 1" by simp
  then show ?thesis using True by simp
next
  case False
  then have "max 1 q = q" by simp
  moreover have "2 \<le> 2 * q div 7" using False by presburger
  ultimately have "max 1 (2 * max 1 q div 7) = 2 * q div 7" by simp
  moreover have "2 * q div 7 div 2 \<noteq> 0" using \<open>2 \<le> 2 * q div 7\<close> by presburger
  ultimately show ?thesis using False by simp
qed

lemma estimate_people_pan_zero: "(estimate_people n True = 0) = (n < 5600)"
proof -
  let ?q = "int n div 800"
  have "?q = int (n div 800)" by (simp add: zdiv_int)
  moreover have "(n div 800 < 7) = (n < 7 * 800)"
    by (rule div_less_iff_less_mult) simp
  ultimately have q: "(?q < 7) = (n < 5600)" by simp
  have "0 \<le> ?q" by simp
  then have "(max 1 (2 * max 1 ?q div 7) div 2 = 0) = (?q < 7)"
    by (rule halved_estimate_zero)
  then show ?thesis by (simp add: estimate_people_def Let_def q)
qed

lemma estimate_people_nonneg: "0 \<le> estimate_people n pan"
  by (simp add: estimate_people_def Let_def max_def)

section \<open>The occupant estimate\<close>

text \<open>
  C3, as the code has it. After a processed frame the occupant estimate is at least 1 when
  the frame was not flagged as an extreme pan, whatever the number of foreground pixels
  (also none). When the frame was flagged, the estimate is halved after the minimum has
  been taken: it is 0 exactly when the mask has fewer than 5600 foreground pixels, and it
  is never negative.
\<close>

theorem occupant_estimate_minimum:
  "process_frame now fid ob e = Inr (e', evs) \<longrightarrow>
   detect_camera_pan (gray ob) e = Inr (e1, pan) \<longrightarrow>
     estimated_people e' = estimate_people (count_nonzero (fg_mask ob)) pan \<and>
     0 \<le> estimated_people e' \<and>
     (if pan then (estimated_people e' = 0) = (count_nonzero (fg_mask ob) < 5600)
      else 1 \<le> estimated_people e')"
proof (intro impI)
  assume pf: "process_frame now fid ob e = Inr (e', evs)"
     and dp: "detect_camera_pan (gray ob) e = Inr (e1, pan)"
  from process_frame_measurements [OF pf] dp
  have est: "estimated_people e' = estimate_people (count_nonzero (fg_mask ob)) pan"
    by auto
  show "estimated_people e' = estimate_people (count_nonzero (fg_mask ob)) pan \<and>
     0 \<le> estimated_people e' \<and>
     (if pan then (estimated_people e' = 0) = (count_nonzero (fg_mask ob) < 5600)
      else 1 \<le> estimated_people e')"
    unfolding est
    by (simp add: estimate_people_still estimate_people_pan_zero estimate_people_nonneg)
qed

theorem occupant_estimate_minimum_witness:
  "count_nonzero (fg_mask sparse_panned_frame) < 5600 \<and>
   estimated_people (fst (projr (process_frame 11 2 sparse_panned_frame
     (fst (projr (process_frame 10 1 vacant_frame (new_engine 0.45 0.7 3))))))) = 0"
proof -
  let ?E = "fst (projr (process_frame 10 1 vacant_frame (new_engine 0.45 0.7 3)))"
  let ?r = "projr (process_frame 11 2 sparse_panned_frame ?E)"
  let ?p = "projr (detect_camera_pan (gray sparse_panned_frame) ?E)"
  have run: "process_frame 11 2 sparse_panned_frame ?E = Inr (fst ?r, snd ?r)"
    by (simp add: frame_eval)
  have pan: "detect_camera_pan (gray sparse_panned_frame) ?E = Inr (fst ?p, True)"
    by (simp add: frame_eval)
  have few: "count_nonzero (fg_mask sparse_panned_frame) < 5600"
    by (simp add: sparse_panned_frame_def upper_half_count)
  have "if True then (estimated_people (fst ?r) = 0) =
                       (count_nonzero (fg_mask sparse_panned_frame) < 5600)
        else 1 \<le> estimated_people (fst ?r)"
    using occupant_estimate_minimum [of 11 2 sparse_panned_frame ?E "fst ?r" "snd ?r" "fst ?p" True]
      run pan by blast
  then have "(estimated_people (fst ?r) = 0) = (count_nonzero (fg_mask sparse_panned_frame) < 5600)"
    by (simp only: if_True)
  then show ?thesis using few by blast
qed

theorem occupant_estimate_pan_counterexample:
  "0 < count_nonzero (fg_mask sparse_panned_frame) \<and>
   \<not> isl (process_frame 11 2 sparse_panned_frame
     (fst (projr (process_frame 10 1 vacant_frame (new_engine 0.45 0.7 3))))) \<and>
   estimated_people (fst (projr (process_frame 11 2 sparse_panned_frame
     (fst (projr (process_frame 10 1 vacant_frame (new_engine 0.45 0.7 3))))))) = 0"
  by (simp add: frame_eval)

section \<open>The pan flag\<close>

lemma absdiff_pixel:
  "unat (if q \<le> p then p - q else q - p :: 8 word) =
     max (unat p) (unat q) - min (unat p) (unat q)"
proof (cases "q \<le> p")
  case True
  then have "unat q \<le> unat p" by (simp add: word_le_nat_alt)
  moreover have "unat (p - q) = unat p - unat q" using True by (simp add: unat_sub)
  ultimately show ?thesis using True by simp
next
  case False
  then have le: "unat p \<le> unat q" by (simp add: word_le_nat_alt)
  then have "p \<le> q" by (simp add: word_le_nat_alt)
  then have "unat (q - p) = unat q - unat p" by (simp add: unat_sub)
  then show ?thesis using False le by simp
qed

text \<open>
  C4, as the code has it. When the engine holds a previous grayscale frame of the same
  shape and more than 0.6 of the pixels differ from it by more than 30, and the frame has
  at least 50 rows and 180 columns, so that the legend can be drawn, the frame is
  processed with the pan flag set: the raw density appended to the history is half of the
  mean of the grid, and the occupant estimate is the value computed without the flag (the
  count divided by 800 and floored, divided by 3.5 and floored, at least 1), halved and
  floored once more.
\<close>

theorem pan_halves_density_and_estimate:
  "prev_gray e = Some pg \<longrightarrow>
   map length pg = map length (gray ob) \<longrightarrow>
   0.6 < real (count_nonzero (threshold_binary 30 255 (absdiff pg (gray ob)))) /
         real (shape_h (threshold_binary 30 255 (absdiff pg (gray ob))) *
               shape_w (threshold_binary 30 255 (absdiff pg (gray ob)))) \<longrightarrow>
   50 \<le> shape_h (fg_mask ob) \<longrightarrow>
   180 \<le> shape_w (fg_mask ob) \<longrightarrow>
   grid_mean (density_map (fg_mask ob)) = Inr d \<longrightarrow>
     detect_camera_pan (gray ob) e = Inr (e\<lparr>prev_gray := Some (gray ob)\<rparr>, True) \<and>
     (\<exists>e' evs. process_frame now fid ob e = Inr (e', evs) \<and>
        density_history e' = deque_append (d / 2) (density_history e) \<and>
        last (density_history e') = d / 2 \<and>
        estimated_people e' = estimate_people (count_nonzero (fg_mask ob)) False div 2 \<and>
        estimated_people e' = max 1 (2 * (int (count_nonzero (fg_mask ob)) div 800) div 7) div 2)"
proof (intro impI)
  assume prev: "prev_gray e = Some pg"
     and shape: "map length pg = map length (gray ob)"
     and changed: "0.6 < real (count_nonzero (threshold_binary 30 255 (absdiff pg (gray ob)))) /
         real (shape_h (threshold_binary 30 255 (absdiff pg (gray ob))) *
               shape_w (threshold_binary 30 255 (absdiff pg (gray ob))))"
     and tall: "50 \<le> shape_h (fg_mask ob)" and wide: "180 \<le> shape_w (fg_mask ob)"
     and grid: "grid_mean (density_map (fg_mask ob)) = Inr d"
  have fits: "legend_fits (shape_h (fg_mask ob)) (shape_w (fg_mask ob))"
    using tall wide by (simp add: legend_fits_iff)
  have pan: "detect_camera_pan (gray ob) e = Inr (e\<lparr>prev_gray := Some (gray ob)\<rparr>, True)"
    using prev shape changed by (simp add: detect_camera_pan_def Let_def)
  have dens: "overall_density (fg_mask ob) True = Inr (d / 2)"
    using grid by (simp add: overall_density_def)
  obtain e' evs where pf: "process_frame now fid ob e = Inr (e', evs)"
    using pan dens fits
    by (cases "process_frame now fid ob e") (auto simp: process_frame_def Let_def)
  from process_frame_measurements [OF pf] pan dens
  have hist: "density_history e' = deque_append (d / 2) (density_history e)"
   and est: "estimated_people e' = estimate_people (count_nonzero (fg_mask ob)) True"
    by auto
  have "last (density_history e') = d / 2"
    unfolding hist by (rule last_deque_append)
  then show "detect_camera_pan (gray ob) e = Inr (e\<lparr>prev_gray := Some (gray ob)\<rparr>, True) \<and>
     (\<exists>e' evs. process_frame now fid ob e = Inr (e', evs) \<and>
        density_history e' = deque_append (d / 2) (density_history e) \<and>
        last (density_history e') = d / 2 \<and>
        estimated_people e' = estimate_people (count_nonzero (fg_mask ob)) False div 2 \<and>
        estimated_people e' = max 1 (2 * (int (count_nonzero (fg_mask ob)) div 800) div 7) div 2)"
    using pan pf hist est
    by (auto simp: estimate_people_pan estimate_people_order)
qed

theorem pan_halves_density_and_estimate_witness:
  "last (density_history (fst (projr (process_frame 11 2 panned_frame
     (fst (projr (process_frame 10 1 vacant_frame (new_engine 0.45 0.7 3)))))))) = 1 / 2 \<and>
   estimated_people (fst (projr (process_frame 11 2 panned_frame
     (fst (projr (process_frame 10 1 vacant_frame (new_engine 0.45 0.7 3))))))) = 1"
proof -
  let ?E = "fst (projr (process_frame 10 1 vacant_frame (new_engine 0.45 0.7 3)))"
  let ?pg = "replicate 50 (replicate 200 (0::8 word))"
  let ?t = "threshold_binary 30 255 (absdiff ?pg (gray panned_frame))"
  have prev: "prev_gray ?E = Some ?pg" by (simp add: frame_eval)
  have shape: "map length ?pg = map length (gray panned_frame)"
    by (simp add: panned_frame_def)
  have changed: "0.6 < real (count_nonzero ?t) / real (shape_h ?t * shape_w ?t)"
    by (simp add: frame_eval)
  have grid: "grid_mean (density_map (fg_mask panned_frame)) = Inr 1"
    by (simp add: frame_eval)
  have tall: "50 \<le> shape_h (fg_mask panned_frame)"
    and wide: "180 \<le> shape_w (fg_mask panned_frame)"
    by (simp_all add: panned_frame_def shape_h_uniform shape_w_uniform)
  obtain e' evs where pf: "process_frame 11 2 panned_frame ?E = Inr (e', evs)"
      and raw: "last (density_history e') = 1 / 2"
      and est: "estimated_people e' =
                  estimate_people (count_nonzero (fg_mask panned_frame)) False div 2"
    using pan_halves_density_and_estimate [of ?E ?pg panned_frame 1 11 2]
      prev shape changed tall wide grid by blast
  have "estimate_people (count_nonzero (fg_mask panned_frame)) False div 2 = 1"
    by (simp add: frame_eval)
  then show ?thesis using pf raw est by simp
qed

theorem pan_estimate_not_half_counterexample:
  "fg_mask panned_frame = fg_mask crowded_frame \<and>
   snd (projr (detect_camera_pan (gray panned_frame)
     (fst (projr (process_frame 10 1 vacant_frame (new_engine 0.45 0.7 3)))))) \<and>
   \<not> snd (projr (detect_camera_pan (gray crowded_frame)
     (fst (projr (process_frame 10 1 vacant_frame (new_engine 0.45 0.7 3)))))) \<and>
   2 * estimated_people (fst (projr (process_frame 11 2 panned_frame
     (fst (projr (process_frame 10 1 vacant_frame (new_engine 0.45 0.7 3)))))))
   \<noteq> estimated_people (fst (projr (process_frame 11 2 crowded_frame
     (fst (projr (process_frame 10 1 vacant_frame (new_engine 0.45 0.7 3)))))))"
  by (simp add: frame_eval)

section \<open>The density history\<close>

lemma deque_append_full:
  "length h = maxlen \<Longrightarrow> deque_append x h = tl h @ [x]"
  by (cases h) (simp_all add: deque_append_def Let_def maxlen_def)

lemma deque_append_room:
  "length h < maxlen \<Longrightarrow> deque_append x h = h @ [x]"
  by (simp add: deque_append_def Let_def)

lemma deque_fill: "foldl (\<lambda>h x. deque_append x h) [] xs = drop (length xs - maxlen) xs"
proof (induction xs rule: rev_induct)
  case Nil
  show ?case by simp
next
  case (snoc x xs)
  let ?h = "drop (length xs - maxlen) xs"
  have step: "foldl (\<lambda>h x. deque_append x h) [] (xs @ [x]) = deque_append x ?h"
    using snoc.IH by simp
  show ?case
  proof (cases "length xs < maxlen")
    case True
    then have "deque_append x ?h = xs @ [x]" by (simp add: deque_append_room)
    then show ?thesis using step True by simp
  next
    case False
    then have len: "length ?h = maxlen" by simp
    have "tl ?h = drop (Suc (length xs - maxlen)) xs" by (simp add: drop_Suc tl_drop)
    also have "Suc (length xs - maxlen) = length (xs @ [x]) - maxlen" using False by simp
    finally have "deque_append x ?h = drop (length (xs @ [x]) - maxlen) xs @ [x]"
      using deque_append_full [OF len] by simp
    moreover have "length (xs @ [x]) - maxlen \<le> length xs"
      by (simp add: maxlen_def)
    ultimately show ?thesis using step by simp
  qed
qed

text \<open>
  C5. Appending any values to an empty density history, one after the other, leaves the
  last \<open>min N 15\<close> of them in the order of their insertion. Every processed frame appends
  its raw density to the history in this way, a history of at most 15 values stays at
  most 15 values long, and the smoothed density the frame leaves is the sum of the values
  then in the history divided by their number.
\<close>

theorem density_history_ring_buffer:
  "foldl (\<lambda>h x. deque_append x h) [] xs = drop (length xs - 15) xs
   \<and> length (foldl (\<lambda>h x. deque_append x h) [] xs) = min (length xs) 15
   \<and> (process_frame now fid ob e = Inr (e', evs) \<longrightarrow>
        (\<exists>pan d. overall_density (fg_mask ob) pan = Inr d \<and>
                 density_history e' = deque_append d (density_history e)) \<and>
        density_history e' \<noteq> [] \<and>
        (length (density_history e) \<le> 15 \<longrightarrow> length (density_history e') \<le> 15) \<and>
        current_density e' =
          sum_list (density_history e') / real (length (density_history e')))"
proof (intro conjI impI)
  show fill: "foldl (\<lambda>h x. deque_append x h) [] xs = drop (length xs - 15) xs"
    using deque_fill [of xs] by (simp add: maxlen_def)
  show "length (foldl (\<lambda>h x. deque_append x h) [] xs) = min (length xs) 15"
    unfolding fill by simp
next
  assume pf: "process_frame now fid ob e = Inr (e', evs)"
  from process_frame_measurements [OF pf] obtain e1 pan d where
      d: "overall_density (fg_mask ob) pan = Inr d"
      and hist: "density_history e' = deque_append d (density_history e)"
      and cur: "current_density e' = mean (density_history e')"
    by blast
  show "\<exists>pan d. overall_density (fg_mask ob) pan = Inr d \<and>
                 density_history e' = deque_append d (density_history e)"
    using d hist by blast
  show "density_history e' \<noteq> []"
    unfolding hist by (rule deque_append_nonempty)
  show "length (density_history e') \<le> 15" if "length (density_history e) \<le> 15"
    unfolding hist using that by (simp add: deque_append_def Let_def maxlen_def)
  show "current_density e' =
          sum_list (density_history e') / real (length (density_history e'))"
    using cur by (simp add: mean_def)
qed

theorem density_history_ring_buffer_witness:
  "foldl (\<lambda>h x. deque_append x h) []
     [1, 2, 3, 4, 5, 6, 7, 8, 9, 10, 11, 12, 13, 14, 15, 16, 17] =
     [3, 4, 5, 6, 7, 8, 9, 10, 11, 12, 13, 14, 15, 16, 17]
   \<and> current_density (fst (projr (process_frame 11 2 panned_frame
        (fst (projr (process_frame 10 1 vacant_frame (new_engine 0.45 0.7 3))))))) = 1 / 4"
proof -
  let ?E = "fst (projr (process_frame 10 1 vacant_frame (new_engine 0.45 0.7 3)))"
  let ?r = "projr (process_frame 11 2 panned_frame ?E)"
  let ?xs = "[1, 2, 3, 4, 5, 6, 7, 8, 9, 10, 11, 12, 13, 14, 15, 16, 17 :: real]"
  note ring = density_history_ring_buffer [of ?xs 11 2 panned_frame ?E "fst ?r" "snd ?r"]
  have run: "process_frame 11 2 panned_frame ?E = Inr (fst ?r, snd ?r)"
    by (simp add: frame_eval)
  have hist: "density_history (fst ?r) = [0, 1 / 2]"
    by (simp add: frame_eval)
  have "foldl (\<lambda>h x. deque_append x h) [] ?xs = drop (length ?xs - 15) ?xs"
    using ring by blast
  then have first: "foldl (\<lambda>h x. deque_append x h) [] ?xs =
      [3, 4, 5, 6, 7, 8, 9, 10, 11, 12, 13, 14, 15, 16, 17]"
    by simp
  have "current_density (fst ?r) =
          sum_list (density_history (fst ?r)) / real (length (density_history (fst ?r)))"
    using ring run by blast
  then have "current_density (fst ?r) = 1 / 4" unfolding hist by simp
  then show ?thesis using first by blast
qed

section \<open>The density grid\<close>

lemma take_drop_take: "n + k \<le> m \<Longrightarrow> take k (drop n (take m xs)) = take k (drop n xs)"
  by (simp add: drop_take min_def)

lemma cell_complete_cells:
  assumes "i < shape_h img div grid_size" "j < shape_w img div grid_size"
  shows "cell (complete_cells img) i j = cell img i j"
proof -
  have "Suc i \<le> shape_h img div grid_size" using assms(1) by simp
  then have "Suc i * grid_size \<le> shape_h img div grid_size * grid_size"
    by (rule mult_le_mono1)
  then have rows: "i * grid_size + grid_size \<le> shape_h img div grid_size * grid_size"
    by simp
  have "Suc j \<le> shape_w img div grid_size" using assms(2) by simp
  then have "Suc j * grid_size \<le> shape_w img div grid_size * grid_size"
    by (rule mult_le_mono1)
  then have cols: "j * grid_size + grid_size \<le> shape_w img div grid_size * grid_size"
    by simp
  show ?thesis
    unfolding cell_def complete_cells_def
    by (simp add: drop_map take_map take_drop_take [OF rows] take_drop_take [OF cols])
qed

lemma density_map_complete_cells:
  "density_map img =
     map (\<lambda>i. map (\<lambda>j. real (count_nonzero (cell (complete_cells img) i j)) /
                        real (grid_size ^ 2))
                  [0..<shape_w img div grid_size])
         [0..<shape_h img div grid_size]"
  unfolding density_map_def Let_def
  by (intro map_cong refl) (simp add: cell_complete_cells)

lemma count_nonzero_columns:
  "count_nonzero img = count_nonzero (map (take n) img) + count_nonzero (map (drop n) img)"
proof (induction img)
  case Nil
  show ?case by (simp add: count_nonzero_def)
next
  case (Cons row img)
  have "length (filter (\<lambda>p. 0 < p) row) =
          length (filter (\<lambda>p. 0 < p) (take n row)) + length (filter (\<lambda>p. 0 < p) (drop n row))"
    by (metis append_take_drop_id filter_append length_append)
  then show ?case using Cons.IH by (simp add: count_nonzero_def)
qed

lemma count_nonzero_regions:
  "count_nonzero img =
     count_nonzero (complete_cells img) + count_nonzero (trailing_columns img) +
     count_nonzero (trailing_rows img)"
proof -
  let ?H = "shape_h img div grid_size * grid_size"
  have "count_nonzero img = count_nonzero (take ?H img) + count_nonzero (drop ?H img)"
    by (metis append_take_drop_id count_nonzero_append)
  then show ?thesis
    unfolding complete_cells_def trailing_columns_def trailing_rows_def
    using count_nonzero_columns [of "take ?H img" "shape_w img div grid_size * grid_size"]
    by simp
qed

text \<open>
  C9. The density grid has \<open>h div 25\<close> rows of \<open>w div 25\<close> cells. Two masks of one shape
  that agree on the pixels in complete cells have the same grid and the same raw density,
  so the pixels of the trailing rows and columns change neither. Those pixels are
  counted in the total number of foreground pixels that the occupant estimate is
  computed from.
\<close>

theorem grid_covers_complete_cells:
  "length (density_map img) = shape_h img div 25
   \<and> (\<forall>row \<in> set (density_map img). length row = shape_w img div 25)
   \<and> (shape_h img' = shape_h img \<longrightarrow> shape_w img' = shape_w img \<longrightarrow>
        complete_cells img' = complete_cells img \<longrightarrow>
        density_map img' = density_map img \<and>
        overall_density img' pan = overall_density img pan)
   \<and> count_nonzero img =
        count_nonzero (complete_cells img) + count_nonzero (trailing_columns img) +
        count_nonzero (trailing_rows img)
   \<and> (process_frame now fid ob e = Inr (e', evs) \<longrightarrow>
        (\<exists>flag. estimated_people e' = estimate_people (count_nonzero (fg_mask ob)) flag))"
proof (intro conjI impI ballI)
  show "length (density_map img) = shape_h img div 25"
    by (simp add: density_map_def Let_def grid_size_def)
  show "length row = shape_w img div 25" if "row \<in> set (density_map img)" for row
    using that by (auto simp: density_map_def Let_def grid_size_def)
  show "count_nonzero img =
        count_nonzero (complete_cells img) + count_nonzero (trailing_columns img) +
        count_nonzero (trailing_rows img)"
    by (rule count_nonzero_regions)
next
  assume same: "shape_h img' = shape_h img" "shape_w img' = shape_w img"
      "complete_cells img' = complete_cells img"
  show grid: "density_map img' = density_map img"
    using same
    by (simp add: density_map_complete_cells [of img'] density_map_complete_cells [of img])
  show "overall_density img' pan = overall_density img pan"
    by (simp add: overall_density_def grid)
next
  assume pf: "process_frame now fid ob e = Inr (e', evs)"
  from process_frame_measurements [OF pf]
  show "\<exists>flag. estimated_people e' = estimate_people (count_nonzero (fg_mask ob)) flag"
    by blast
qed

theorem grid_covers_complete_cells_witness:
  "density_map corner_pixel_mask = density_map (replicate 26 (replicate 26 0)) \<and>
   overall_density corner_pixel_mask False = Inr 0 \<and>
   count_nonzero corner_pixel_mask = 1 \<and>
   count_nonzero (replicate 26 (replicate 26 0)) = 0"
proof -
  let ?blank = "replicate 26 (replicate 26 (0::8 word))"
  have h: "shape_h corner_pixel_mask = shape_h ?blank"
    by (simp add: corner_pixel_mask_def shape_h_def)
  have w: "shape_w corner_pixel_mask = shape_w ?blank"
    by (simp add: corner_pixel_mask_def shape_w_append shape_w_uniform)
  have c: "complete_cells corner_pixel_mask = complete_cells ?blank"
    by (simp add: complete_cells_def h w shape_h_uniform shape_w_uniform grid_size_def)
       (simp add: corner_pixel_mask_def)
  have same: "density_map corner_pixel_mask = density_map ?blank \<and>
        overall_density corner_pixel_mask False = overall_density ?blank False"
    using grid_covers_complete_cells [of ?blank corner_pixel_mask False] h w c by blast
  have "overall_density ?blank False = Inr 0"
    by (simp add: overall_density_def grid_mean_def density_map_uniform grid_size_def)
  moreover have "count_nonzero corner_pixel_mask = 1"
    by (simp add: corner_pixel_mask_def count_nonzero_append count_nonzero_uniform)
       (simp add: count_nonzero_def)
  moreover have "count_nonzero ?blank = 0"
    by (simp add: count_nonzero_uniform)
  ultimately show ?thesis using same by simp
qed

section \<open>End of stream in the ingestion loop\<close>

lemma failed_read_on_location:
  assumes "st_cap st = Some c" "st_source st = Some (Location s)"
  shows "loop_iteration Read_Failed st =
           (if is_finite_file s
            then (Continue,
                  st\<lparr> st_cap := Some (c\<lparr>pos_frames := 0\<rparr>),
                      st_engine := map_option reset (st_engine st) \<rparr>, [])
            else (Continue, st\<lparr> st_cap := Some (open_capture (Location s)) \<rparr>,
                  [Release_Capture c, Sleep 0.25]))"
  using assms by (simp add: loop_iteration_def on_read_failure_def)

lemma failed_reads_keep_running:
  assumes "st_running st" "st_source st = Some (Location s)" "st_cap st \<noteq> None"
  shows "fst (video_loop (replicate n Read_Failed) st) = Still_Running"
  using assms
proof (induction n arbitrary: st)
  case 0
  then show ?case by simp
next
  case (Suc n)
  from Suc.prems(3) obtain c where c: "st_cap st = Some c" by blast
  obtain st' fx where it: "loop_iteration Read_Failed st = (Continue, st', fx)"
      and keep: "st_running st'" "st_source st' = Some (Location s)" "st_cap st' \<noteq> None"
    using failed_read_on_location [OF c Suc.prems(2)] Suc.prems(1,2)
    by (cases "is_finite_file s") simp_all
  have "fst (video_loop (replicate n Read_Failed) st') = Still_Running"
    using keep by (rule Suc.IH)
  then show ?case
    using Suc.prems(1) it by (simp add: case_prod_unfold Let_def)
qed

text \<open>
  C7, as the code has it. When a read fails and the source is a string that ends, in lower
  case, with an extension of the allowlist, the loop sets the position back to frame 0,
  resets the engine and goes on. When the source is any other string, the loop releases
  the handle, waits 0.25 seconds, opens the source again and goes on; however many reads
  fail in a row on a string source, the loop is still running. When the source is not a
  string (the device index of a camera), the failed read ends the loop, which releases the
  handle.
\<close>

theorem read_failure_handling:
  "st_cap st = Some c \<longrightarrow>
     (st_source st = Some (Location s) \<longrightarrow> is_finite_file s \<longrightarrow>
        loop_iteration Read_Failed st =
          (Continue,
           st\<lparr> st_cap := Some (c\<lparr>pos_frames := 0\<rparr>),
               st_engine := map_option reset (st_engine st) \<rparr>, []))
   \<and> (st_source st = Some (Location s) \<longrightarrow> \<not> is_finite_file s \<longrightarrow>
        loop_iteration Read_Failed st =
          (Continue, st\<lparr> st_cap := Some (open_capture (Location s)) \<rparr>,
           [Release_Capture c, Sleep 0.25]))
   \<and> (st_source st = Some (Location s) \<longrightarrow> st_running st \<longrightarrow>
        fst (video_loop (replicate n Read_Failed) st) = Still_Running)
   \<and> (st_source st = Some (Device k) \<longrightarrow> st_running st \<longrightarrow>
        video_loop (Read_Failed # rs) st =
          (Exited, st\<lparr>st_cap := Some (release c)\<rparr>, [Release_Capture c]))"
proof (intro impI conjI)
  assume c: "st_cap st = Some c"
  show "loop_iteration Read_Failed st =
          (Continue,
           st\<lparr> st_cap := Some (c\<lparr>pos_frames := 0\<rparr>),
               st_engine := map_option reset (st_engine st) \<rparr>, [])"
    if "st_source st = Some (Location s)" "is_finite_file s"
    using failed_read_on_location [OF c that(1)] that(2) by simp
  show "loop_iteration Read_Failed st =
          (Continue, st\<lparr> st_cap := Some (open_capture (Location s)) \<rparr>,
           [Release_Capture c, Sleep 0.25])"
    if "st_source st = Some (Location s)" "\<not> is_finite_file s"
    using failed_read_on_location [OF c that(1)] that(2) by simp
  show "fst (video_loop (replicate n Read_Failed) st) = Still_Running"
    if "st_source st = Some (Location s)" "st_running st"
    using that c by (intro failed_reads_keep_running) simp_all
  show "video_loop (Read_Failed # rs) st =
          (Exited, st\<lparr>st_cap := Some (release c)\<rparr>, [Release_Capture c])"
    if "st_source st = Some (Device k)" "st_running st"
    using that c by (simp add: loop_iteration_def on_read_failure_def release_cap_def)
qed

lemma start_opened:
  "st_cap (start src sid threshold opacity True st) = Some (open_capture src)"
  "st_source (start src sid threshold opacity True st) = Some src"
  "st_running (start src sid threshold opacity True st)"
  "alerts_history (start src sid threshold opacity True st) = alerts_history st"
  "total_alerts (st_stats (start src sid threshold opacity True st)) = total_alerts (st_stats st)"
  "st_engine (start src sid threshold opacity True st) =
     Some (new_engine (fst (start_params threshold opacity))
             (snd (start_params threshold opacity)) 3)"
  by (simp_all add: start_def case_prod_unfold Let_def)

lemma stream_is_not_a_file: "\<not> is_finite_file ''rtsp://cam/live''"
  by code_simp

lemma upload_is_a_file: "is_finite_file ''uploads/clip.MP4''"
  by code_simp

theorem read_failure_handling_witness:
  "fst (loop_iteration Read_Failed
      (start (Location ''uploads/clip.MP4'') None Absent Absent True (initial_state []))) = Continue
   \<and> snd (snd (loop_iteration Read_Failed
      (start (Location ''rtsp://cam/live'') None Absent Absent True (initial_state [])))) =
      [Release_Capture (open_capture (Location ''rtsp://cam/live'')), Sleep 0.25]
   \<and> fst (video_loop (replicate 3 Read_Failed)
      (start (Location ''rtsp://cam/live'') None Absent Absent True (initial_state []))) =
      Still_Running
   \<and> fst (video_loop [Read_Failed]
      (start (Device 0) None Absent Absent True (initial_state []))) = Exited"
proof -
  let ?file = "start (Location ''uploads/clip.MP4'') None Absent Absent True (initial_state [])"
  let ?live = "start (Location ''rtsp://cam/live'') None Absent Absent True (initial_state [])"
  let ?cam = "start (Device 0) None Absent Absent True (initial_state [])"
  have upl: "st_cap ?file = Some (open_capture (Location ''uploads/clip.MP4''))"
      "st_source ?file = Some (Location ''uploads/clip.MP4'')"
    by (simp_all add: start_opened)
  have live: "st_cap ?live = Some (open_capture (Location ''rtsp://cam/live''))"
      "st_source ?live = Some (Location ''rtsp://cam/live'')" "st_running ?live"
    by (simp_all add: start_opened)
  have cam: "st_cap ?cam = Some (open_capture (Device 0))"
      "st_source ?cam = Some (Device 0)" "st_running ?cam"
    by (simp_all add: start_opened)
  have "fst (loop_iteration Read_Failed ?file) = Continue"
    using read_failure_handling [of ?file _ "''uploads/clip.MP4''"] upl upload_is_a_file
    by simp
  moreover have "snd (snd (loop_iteration Read_Failed ?live)) =
      [Release_Capture (open_capture (Location ''rtsp://cam/live'')), Sleep 0.25]"
    using read_failure_handling [of ?live _ "''rtsp://cam/live''"] live stream_is_not_a_file
    by simp
  moreover have "fst (video_loop (replicate 3 Read_Failed) ?live) = Still_Running"
    using read_failure_handling [of ?live _ "''rtsp://cam/live''" 3] live by blast
  moreover have "fst (video_loop [Read_Failed] ?cam) = Exited"
    using read_failure_handling [of ?cam _ _ _ 0 "[]"] cam by simp
  ultimately show ?thesis by blast
qed

theorem camera_read_failure_counterexample:
  "st_source (start (Device 0) None Absent Absent True (initial_state [])) = Some (Device 0) \<and>
   st_running (start (Device 0) None Absent Absent True (initial_state [])) \<and>
   fst (video_loop [Read_Failed, Read_Failed]
      (start (Device 0) None Absent Absent True (initial_state []))) = Exited"
  by (simp add: start_opened loop_iteration_def on_read_failure_def release_cap_def)

section \<open>Session parameters\<close>

text \<open>
  C8, as the code has it. The form values are percentages: for numeric form values \<open>x\<close>
  and \<open>y\<close>, the threshold applied at the start of a session and by a parameter update is
  \<open>x / 100\<close> moved to the nearest bound of \<open>[0, 1]\<close>, and the opacity is \<open>y / 100\<close> moved to
  the nearest bound of \<open>[0.3, 1]\<close>. The engine of a started session has these two values
  as its threshold and opacity, a cooldown of 3 seconds, and the session is running. The
  update changes these two fields of the engine only, and no parameter update changes
  the running flag.
\<close>

theorem parameters_clamped:
  "start_params (Number x) (Number y) =
     (if x / 100 < 0 then 0 else if 1 < x / 100 then 1 else x / 100,
      if y / 100 < 0.3 then 0.3 else if 1 < y / 100 then 1 else y / 100)
   \<and> st_engine (start src sid (Number x) (Number y) True st) =
       Some (new_engine (if x / 100 < 0 then 0 else if 1 < x / 100 then 1 else x / 100)
               (if y / 100 < 0.3 then 0.3 else if 1 < y / 100 then 1 else y / 100) 3)
   \<and> (\<exists>e0. st_engine (start src sid (Number x) (Number y) True st) = Some e0 \<and>
         density_threshold e0 =
           (if x / 100 < 0 then 0 else if 1 < x / 100 then 1 else x / 100) \<and>
         heatmap_opacity e0 =
           (if y / 100 < 0.3 then 0.3 else if 1 < y / 100 then 1 else y / 100) \<and>
         alert_cooldown e0 = 3)
   \<and> st_running (start src sid (Number x) (Number y) True st)
   \<and> (st_engine st = Some e \<longrightarrow>
        set_params (Number x) (Number y) st =
          st\<lparr> st_engine := Some (e
                \<lparr> density_threshold :=
                    (if x / 100 < 0 then 0 else if 1 < x / 100 then 1 else x / 100),
                  heatmap_opacity :=
                    (if y / 100 < 0.3 then 0.3 else if 1 < y / 100 then 1 else y / 100) \<rparr>) \<rparr>)
   \<and> st_running (set_params threshold opacity st) = st_running st
   \<and> 0 \<le> fst (start_params (Number x) (Number y))
   \<and> fst (start_params (Number x) (Number y)) \<le> 1
   \<and> 0.3 \<le> snd (start_params (Number x) (Number y))
   \<and> snd (start_params (Number x) (Number y)) \<le> 1"
proof -
  have thr: "max 0 (min 1 (x / 100)) =
          (if x / 100 < 0 then 0 else if 1 < x / 100 then 1 else x / 100)"
    by (simp add: max_def min_def)
  have op: "max 0.3 (min 1 (y / 100)) =
          (if y / 100 < 0.3 then 0.3 else if 1 < y / 100 then 1 else y / 100)"
    by (simp add: max_def min_def)
  have params: "start_params (Number x) (Number y) =
     (if x / 100 < 0 then 0 else if 1 < x / 100 then 1 else x / 100,
      if y / 100 < 0.3 then 0.3 else if 1 < y / 100 then 1 else y / 100)"
    unfolding thr [symmetric] op [symmetric]
    by (simp add: start_params_def float_field_def)
  have started: "st_engine (start src sid (Number x) (Number y) True st) =
       Some (new_engine (if x / 100 < 0 then 0 else if 1 < x / 100 then 1 else x / 100)
               (if y / 100 < 0.3 then 0.3 else if 1 < y / 100 then 1 else y / 100) 3)"
    unfolding start_opened params by simp
  have fields: "\<exists>e0. st_engine (start src sid (Number x) (Number y) True st) = Some e0 \<and>
         density_threshold e0 =
           (if x / 100 < 0 then 0 else if 1 < x / 100 then 1 else x / 100) \<and>
         heatmap_opacity e0 =
           (if y / 100 < 0.3 then 0.3 else if 1 < y / 100 then 1 else y / 100) \<and>
         alert_cooldown e0 = 3"
    unfolding started by (simp add: new_engine_def)
  have live: "st_running (start src sid (Number x) (Number y) True st)"
    by (simp add: start_opened)
  have update: "set_params (Number x) (Number y) st =
          st\<lparr> st_engine := Some (e
                \<lparr> density_threshold :=
                    (if x / 100 < 0 then 0 else if 1 < x / 100 then 1 else x / 100),
                  heatmap_opacity :=
                    (if y / 100 < 0.3 then 0.3 else if 1 < y / 100 then 1 else y / 100) \<rparr>) \<rparr>"
    if "st_engine st = Some e"
    unfolding thr [symmetric] op [symmetric]
    using that by (simp add: set_params_def float_field_def)
  have running: "st_running (set_params threshold opacity st) = st_running st"
    by (simp add: set_params_def split: option.splits prod.splits)
  have bounds: "0 \<le> fst (start_params (Number x) (Number y))"
      "fst (start_params (Number x) (Number y)) \<le> 1"
      "0.3 \<le> snd (start_params (Number x) (Number y))"
      "snd (start_params (Number x) (Number y)) \<le> 1"
    by (simp_all add: start_params_def float_field_def)
  show ?thesis
    using params started fields live update running bounds by blast
qed

theorem parameters_clamped_witness:
  "density_threshold (the (st_engine
      (start (Device 0) None (Number 250) (Number 10) True (initial_state [])))) = 1 \<and>
   heatmap_opacity (the (st_engine
      (start (Device 0) None (Number 250) (Number 10) True (initial_state [])))) = 0.3 \<and>
   density_threshold (the (st_engine (set_params (Number (- 20)) (Number 85)
      (start (Device 0) None Absent Absent True (initial_state []))))) = 0 \<and>
   heatmap_opacity (the (st_engine (set_params (Number (- 20)) (Number 85)
      (start (Device 0) None Absent Absent True (initial_state []))))) = 0.85 \<and>
   st_running (set_params (Number (- 20)) (Number 85)
      (start (Device 0) None Absent Absent True (initial_state [])))"
proof -
  let ?st = "start (Device 0) None Absent Absent True (initial_state [])"
  let ?e = "new_engine (fst (start_params Absent Absent)) (snd (start_params Absent Absent)) 3"
  have eng: "st_engine ?st = Some ?e" by (simp add: start_opened)
  obtain e0 where
      e0: "st_engine (start (Device 0) None (Number 250) (Number 10) True (initial_state []))
             = Some e0"
      and thr: "density_threshold e0 =
          (if (250::real) / 100 < 0 then 0 else if 1 < (250::real) / 100 then 1 else 250 / 100)"
      and op: "heatmap_opacity e0 =
          (if (10::real) / 100 < 0.3 then 0.3 else if 1 < (10::real) / 100 then 1 else 10 / 100)"
    using parameters_clamped [where x = 250 and y = 10 and src = "Device 0" and sid = None
        and st = "initial_state []"]
    by blast
  have started: "density_threshold (the (st_engine
      (start (Device 0) None (Number 250) (Number 10) True (initial_state [])))) = 1"
    "heatmap_opacity (the (st_engine
      (start (Device 0) None (Number 250) (Number 10) True (initial_state [])))) = 0.3"
    using e0 thr op by simp_all
  have "set_params (Number (- 20)) (Number 85) ?st =
          ?st\<lparr> st_engine := Some (?e
                \<lparr> density_threshold :=
                    (if (- 20::real) / 100 < 0 then 0 else if 1 < (- 20::real) / 100 then 1
                     else - 20 / 100),
                  heatmap_opacity :=
                    (if (85::real) / 100 < 0.3 then 0.3 else if 1 < (85::real) / 100 then 1
                     else 85 / 100) \<rparr>) \<rparr>"
    using parameters_clamped [where x = "- 20" and y = 85 and st = ?st and e = ?e] eng by blast
  then show ?thesis using started by (simp add: start_opened)
qed

theorem percent_input_counterexample:
  "density_threshold (the (st_engine
      (start (Device 0) None (Number 50) (Number 70) True (initial_state [])))) = 1 / 2 \<and>
   density_threshold (the (st_engine (set_params (Number 50) (Number 70)
      (start (Device 0) None Absent Absent True (initial_state []))))) = 1 / 2 \<and>
   max 0 (min 1 (50 :: real)) = 1"
  by (simp add: start_opened start_params_def float_field_def set_params_def new_engine_def)

section \<open>The alert history of the application\<close>

lemma maybe_send_alert_time_set:
  assumes "now \<noteq> 0" "alert_active e \<longrightarrow> last_alert_time e \<noteq> 0"
  shows "alert_active (fst (maybe_send_alert now fid e)) \<longrightarrow>
         last_alert_time (fst (maybe_send_alert now fid e)) \<noteq> 0"
  using assms by (auto simp: maybe_send_alert_def Let_def split: if_splits)

lemma process_frame_time_set:
  assumes "now \<noteq> 0" "alert_active e \<longrightarrow> last_alert_time e \<noteq> 0"
      and pf: "process_frame now fid ob e = Inr (e', evs)"
  shows "alert_active e' \<longrightarrow> last_alert_time e' \<noteq> 0"
proof -
  obtain e4 where e4: "maybe_send_alert now fid e4 = (e', evs)"
      "alert_active e4 = alert_active e" "last_alert_time e4 = last_alert_time e"
    using process_frame_alert_call [OF pf] by blast
  have "alert_active e4 \<longrightarrow> last_alert_time e4 \<noteq> 0" using assms(2) e4 by simp
  from maybe_send_alert_time_set [OF assms(1) this, of fid] e4(1) show ?thesis by simp
qed

lemma on_frame_continue:
  assumes "st_engine st = Some e" "on_frame ob now c st = (Continue, st', fx)"
  shows "\<exists>e' evs st2 saved.
           process_frame now (st_frame_id st + 1) ob e = Inr (e', evs) \<and>
           alerts_history st2 = alerts_history st \<and>
           total_alerts (st_stats st2) = total_alerts (st_stats st) \<and>
           st_active_stream_id st2 = st_active_stream_id st \<and>
           st_engine st2 = Some e' \<and>
           log_alert e' st2 = (st', saved) \<and>
           fx = Publish evs # saved @ [Sleep 0.01]"
proof (cases "process_frame now (st_frame_id st + 1) ob e")
  case (Inl err)
  then show ?thesis using assms by (simp add: on_frame_def Let_def)
next
  case (Inr r)
  obtain e' evs where r: "r = (e', evs)" by (cases r)
  let ?samples = "if 100 < length (density_samples st @ [current_density e'])
                  then tl (density_samples st @ [current_density e'])
                  else density_samples st @ [current_density e']"
  let ?st2 = "st\<lparr> st_cap := Some (c\<lparr>pos_frames := pos_frames c + 1\<rparr>),
                   st_frame_id := st_frame_id st + 1,
                   st_engine := Some e', density_samples := ?samples,
                   st_stats := (st_stats st)
                     \<lparr> peak_density := max (peak_density (st_stats st)) (current_density e'),
                       avg_density := sum_list ?samples / real (length ?samples) \<rparr> \<rparr>"
  obtain st3 saved where l: "log_alert e' ?st2 = (st3, saved)"
    by (cases "log_alert e' ?st2")
  have "on_frame ob now c st = (Continue, st3, Publish evs # saved @ [Sleep 0.01])"
    using assms(1) Inr r l by (simp add: on_frame_def Let_def)
  then have "st' = st3" "fx = Publish evs # saved @ [Sleep 0.01]"
    using assms(2) by simp_all
  then show ?thesis
    using Inr r l by (intro exI [of _ e'] exI [of _ evs] exI [of _ ?st2] exI [of _ saved]) simp
qed

lemma log_alert_result:
  assumes "log_alert e st = (st', saved)"
  shows "st_engine st' = st_engine st \<and>
         (if alert_active e \<and> last_alert_time e \<noteq> 0
          then alerts_history st' =
                 (let appended = alerts_history st @
                        [\<lparr> al_density = current_density e, al_people = estimated_people e,
                           al_stream_id = st_active_stream_id st \<rparr>]
                  in if 1000 < length appended then tl appended else appended) \<and>
               total_alerts (st_stats st') = length (alerts_history st') \<and>
               saved = [Save_Json (drop (length (alerts_history st') - 100) (alerts_history st'))]
          else st' = st \<and> saved = [])"
  using assms by (auto simp: log_alert_def Let_def split: if_splits)

text \<open>
  What the logging branch of the loop does. A processed frame after which the alert is
  active appends one entry to the alert history, whether or not the frame built an event
  (the clock never reads 0, so an active alert has its transition time set); the list
  loses its oldest entry when it then holds more than 1000, the counter \<open>total_alerts\<close> is
  set to its length and the last 100 entries are saved. A processed frame after which the
  alert is not active changes neither the list nor the counter and saves nothing. A list
  of at most 1000 entries stays at most 1000 entries long.
\<close>

lemma alert_logging_step:
  "st_engine st = Some e \<longrightarrow>
   (alert_active e \<longrightarrow> last_alert_time e \<noteq> 0) \<longrightarrow>
   now \<noteq> 0 \<longrightarrow>
   on_frame ob now c st = (Continue, st', fx) \<longrightarrow>
     (\<exists>e'. st_engine st' = Some e' \<and>
        (alert_active e' \<longrightarrow> last_alert_time e' \<noteq> 0) \<and>
        (if alert_active e'
         then alerts_history st' =
                (let appended = alerts_history st @
                       [\<lparr> al_density = current_density e', al_people = estimated_people e',
                          al_stream_id = st_active_stream_id st \<rparr>]
                 in if 1000 < length appended then tl appended else appended) \<and>
              sn_total_alerts (api_stats st') = length (alerts_history st') \<and>
              Save_Json (drop (length (alerts_history st') - 100) (alerts_history st'))
                \<in> set fx
         else alerts_history st' = alerts_history st \<and>
              sn_total_alerts (api_stats st') = sn_total_alerts (api_stats st) \<and>
              (\<forall>saved. Save_Json saved \<notin> set fx)))
     \<and> (length (alerts_history st) \<le> 1000 \<longrightarrow> length (alerts_history st') \<le> 1000)"
proof (intro impI)
  assume eng: "st_engine st = Some e"
     and stamped: "alert_active e \<longrightarrow> last_alert_time e \<noteq> 0"
     and now: "now \<noteq> 0"
     and frame: "on_frame ob now c st = (Continue, st', fx)"
  from on_frame_continue [OF eng frame] obtain e' evs st2 saved where
      pf: "process_frame now (st_frame_id st + 1) ob e = Inr (e', evs)"
      and st2: "alerts_history st2 = alerts_history st"
        "total_alerts (st_stats st2) = total_alerts (st_stats st)"
        "st_active_stream_id st2 = st_active_stream_id st" "st_engine st2 = Some e'"
      and l: "log_alert e' st2 = (st', saved)"
      and fx: "fx = Publish evs # saved @ [Sleep 0.01]"
    by blast
  have stamped': "alert_active e' \<longrightarrow> last_alert_time e' \<noteq> 0"
    using process_frame_time_set [OF now stamped pf] .
  note res = log_alert_result [OF l]
  have eng': "st_engine st' = Some e'" using res st2 by simp
  have main: "if alert_active e'
         then alerts_history st' =
                (let appended = alerts_history st @
                       [\<lparr> al_density = current_density e', al_people = estimated_people e',
                          al_stream_id = st_active_stream_id st \<rparr>]
                 in if 1000 < length appended then tl appended else appended) \<and>
              sn_total_alerts (api_stats st') = length (alerts_history st') \<and>
              Save_Json (drop (length (alerts_history st') - 100) (alerts_history st'))
                \<in> set fx
         else alerts_history st' = alerts_history st \<and>
              sn_total_alerts (api_stats st') = sn_total_alerts (api_stats st) \<and>
              (\<forall>saved. Save_Json saved \<notin> set fx)"
  proof (cases "alert_active e'")
    case True
    then have "alert_active e' \<and> last_alert_time e' \<noteq> 0" using stamped' by simp
    then show ?thesis using res st2 fx True by (simp add: api_stats_def)
  next
    case False
    then show ?thesis using res st2 fx by (simp add: api_stats_def)
  qed
  have bound: "length (alerts_history st') \<le> 1000" if "length (alerts_history st) \<le> 1000"
    using res st2 that by (auto simp: Let_def split: if_splits)
  show "(\<exists>e'. st_engine st' = Some e' \<and>
        (alert_active e' \<longrightarrow> last_alert_time e' \<noteq> 0) \<and>
        (if alert_active e'
         then alerts_history st' =
                (let appended = alerts_history st @
                       [\<lparr> al_density = current_density e', al_people = estimated_people e',
                          al_stream_id = st_active_stream_id st \<rparr>]
                 in if 1000 < length appended then tl appended else appended) \<and>
              sn_total_alerts (api_stats st') = length (alerts_history st') \<and>
              Save_Json (drop (length (alerts_history st') - 100) (alerts_history st'))
                \<in> set fx
         else alerts_history st' = alerts_history st \<and>
              sn_total_alerts (api_stats st') = sn_total_alerts (api_stats st) \<and>
              (\<forall>saved. Save_Json saved \<notin> set fx)))
     \<and> (length (alerts_history st) \<le> 1000 \<longrightarrow> length (alerts_history st') \<le> 1000)"
    using eng' stamped' main bound by blast
qed

lemmas loop_eval =
  start_opened on_frame_def log_alert_def loop_iteration_def api_stats_def open_capture_def
  initial_state_def start_params_def float_field_def

lemma alert_logging_step_example:
  "length (alerts_history (fst (snd (on_frame crowded_frame 10 (open_capture (Device 0))
      (start (Device 0) None Absent Absent True (initial_state [])))))) = 1 \<and>
   sn_total_alerts (api_stats (fst (snd (on_frame crowded_frame 10 (open_capture (Device 0))
      (start (Device 0) None Absent Absent True (initial_state [])))))) = 1"
proof -
  let ?st = "start (Device 0) None Absent Absent True (initial_state [])"
  let ?e = "new_engine (fst (start_params Absent Absent)) (snd (start_params Absent Absent)) 3"
  let ?r = "on_frame crowded_frame 10 (open_capture (Device 0)) ?st"
  have eng: "st_engine ?st = Some ?e" by (simp add: start_opened)
  have idle: "alert_active ?e \<longrightarrow> last_alert_time ?e \<noteq> 0" by (simp add: new_engine_def)
  have clock: "(10::real) \<noteq> 0" by simp
  have run: "?r = (Continue, fst (snd ?r), snd (snd ?r))"
    by (simp add: loop_eval frame_eval)
  have active: "alert_active (the (st_engine (fst (snd ?r))))"
    by (simp add: loop_eval frame_eval)
  have empty: "alerts_history ?st = []" by (simp add: loop_eval)
  obtain e' where e': "st_engine (fst (snd ?r)) = Some e'"
      and logged: "if alert_active e'
         then alerts_history (fst (snd ?r)) =
                (let appended = alerts_history ?st @
                       [\<lparr> al_density = current_density e', al_people = estimated_people e',
                          al_stream_id = st_active_stream_id ?st \<rparr>]
                 in if 1000 < length appended then tl appended else appended) \<and>
              sn_total_alerts (api_stats (fst (snd ?r))) = length (alerts_history (fst (snd ?r))) \<and>
              Save_Json (drop (length (alerts_history (fst (snd ?r))) - 100)
                           (alerts_history (fst (snd ?r)))) \<in> set (snd (snd ?r))
         else alerts_history (fst (snd ?r)) = alerts_history ?st \<and>
              sn_total_alerts (api_stats (fst (snd ?r))) = sn_total_alerts (api_stats ?st) \<and>
              (\<forall>saved. Save_Json saved \<notin> set (snd (snd ?r)))"
    using alert_logging_step [of ?st ?e 10 crowded_frame "open_capture (Device 0)"
        "fst (snd ?r)" "snd (snd ?r)"] eng idle clock run
    by blast
  have "alert_active e'" using active e' by simp
  then have "alerts_history (fst (snd ?r)) =
                (let appended = alerts_history ?st @
                       [\<lparr> al_density = current_density e', al_people = estimated_people e',
                          al_stream_id = st_active_stream_id ?st \<rparr>]
                 in if 1000 < length appended then tl appended else appended)"
      and "sn_total_alerts (api_stats (fst (snd ?r))) = length (alerts_history (fst (snd ?r)))"
    using logged by simp_all
  then show ?thesis unfolding empty by (simp add: Let_def)
qed

text \<open>
  C10. The counter \<open>total_alerts\<close> is meant to be the length of the alert history, and the
  loop sets it so whenever it logs an entry; but it starts at 0 while the history is read
  from the alerts file. With one entry loaded from the file, a started session and one
  processed frame without alert, the list has one entry and \<open>/api/stats\<close> reports 0.
\<close>

theorem total_alerts_stale_after_restart:
  "fst (video_loop [Frame_Read vacant_frame 10]
        (start (Device 0) None Absent Absent True
           (initial_state [\<lparr>al_density = 0.5, al_people = 1, al_stream_id = None\<rparr>])))
     = Still_Running \<and>
   alerts_history
     (fst (snd (video_loop [Frame_Read vacant_frame 10]
        (start (Device 0) None Absent Absent True
           (initial_state [\<lparr>al_density = 0.5, al_people = 1, al_stream_id = None\<rparr>])))))
     = [\<lparr>al_density = 0.5, al_people = 1, al_stream_id = None\<rparr>] \<and>
   sn_total_alerts (api_stats
     (fst (snd (video_loop [Frame_Read vacant_frame 10]
        (start (Device 0) None Absent Absent True
           (initial_state [\<lparr>al_density = 0.5, al_people = 1, al_stream_id = None\<rparr>])))))) = 0"
  by (simp add: loop_eval frame_eval case_prod_unfold)

end
